theory Spec2Isabelle
  imports Main
begin

section \<open>The XTDB storage client of hoop (gateway/storage/xtdb.go)\<close>

text \<open>
  The client talks to an XTDB node over HTTP. Everything outside the package is a
  parameter of the model: the network (the replies of the node), the clock, and the
  library functions the package calls (the EDN and JSON codecs, URL parsing, Go string
  quoting). Go's multiple return values are tuples, a nil pointer or nil slice is
  \<open>None\<close>, a nil error is \<open>None\<close>, a runtime panic is a value of its own.
  Closing a response body has no counterpart in the model, and neither have the
  constructor, the accessors of the address and EntityToMap, on which no property below
  depends.
\<close>

subsection \<open>Values\<close>

text \<open>A Go \<open>error\<close> is represented by the text its \<open>Error()\<close> method yields.\<close>

datatype error = GoError (message: string)

datatype 'a outcome = Returns 'a | Panics string

datatype http_method = GET | POST

text \<open>
  The body of a response is a stream: \<open>io.ReadAll\<close> yields the bytes read and the
  error that stopped the read, if any.
\<close>

record body =
  data :: string
  read_err :: "error option"

record response =
  StatusCode :: int
  Body :: body

text \<open>
  A request as \<open>http.NewRequest\<close> leaves it and the code then fills it: the header
  as an association list under the keys the source writes, the query values in the order
  they are added, the body the request was built from (\<open>None\<close> for a nil reader).
\<close>

record request =
  Method :: http_method
  URL :: string
  Header :: "(string \<times> string) list"
  RawQuery :: "(string \<times> string) list"
  ReqBody :: "string option"

text \<open>
  \<open>(*http.Response, error)\<close> as \<open>http.Client.Do\<close> and \<open>http.Get\<close> return it.
  net/http returns a non-nil response whenever the error is nil, so there are two cases;
  the guard \<open>resp == nil\<close> that SubmitPutTx and SubmitEvictTx place after the error
  check has no value to fire on.
\<close>

datatype do_result = DoErr error | DoResp response

datatype level = Debug | Info | Print | Warn

text \<open>
  The world a call runs in: \<open>net w n req\<close> is what the network answers to \<open>req\<close>
  when it is the \<open>n\<close>-th request put on the wire, \<open>sent\<close> the requests issued so
  far, \<open>logs\<close> the lines written through common/log.
\<close>

record world =
  net :: "nat \<Rightarrow> request \<Rightarrow> do_result"
  sent :: "request list"
  logs :: "(level \<times> string) list"

record TxResponse =
  TxID :: int
  TxTime :: string

text \<open>The zero value of \<open>TxResponse\<close> (\<open>var txResponse TxResponse\<close>).\<close>

definition zero_TxResponse :: TxResponse where
  "zero_TxResponse = \<lparr>TxID = 0, TxTime = ''0001-01-01T00:00:00Z''\<rparr>"

record storage =
  address :: string

text \<open>
  The library functions the package calls, at the types it calls them. \<open>'v\<close> stands for
  a Go value of dynamic type (\<open>any\<close>, \<open>map[string]any\<close>, \<open>map[edn.Keyword]any\<close>).
  The two receipt decoders return the struct as decoding left it together with the error:
  a decoder that fails half-way may already have stored fields. \<open>fmt_Sprintf0\<close> is
  \<open>fmt.Sprintf\<close> of a format string with no operands, which is how the source calls
  \<open>log.Warnf(err.Error())\<close> and \<open>fmt.Errorf(strings.Join(...))\<close>: the identity on
  texts without a percent sign.
\<close>

record 'v lib =
  url_Parse :: "string \<Rightarrow> error option"
  strconv_Quote :: "string \<Rightarrow> string"
  edn_Marshal :: "'v \<Rightarrow> error + string"
  edn_Marshal_rows :: "'v list \<Rightarrow> error + string"
  edn_Unmarshal_rows :: "string \<Rightarrow> error + 'v list list"
  edn_Decode_TxResponse :: "body \<Rightarrow> TxResponse \<times> error option"
  json_Marshal_tx_ops :: "'v list \<Rightarrow> error + string"
  json_Marshal_rows :: "'v list \<Rightarrow> error + string"
  json_Unmarshal_rows :: "string \<Rightarrow> error + 'v list list"
  json_Decode_TxResponse :: "body \<Rightarrow> TxResponse \<times> error option"
  fmt_Sprintf0 :: "string \<Rightarrow> string"

subsection \<open>Formatting\<close>

text \<open>\<open>%v\<close> of an integer: decimal digits, a minus sign when negative.\<close>

definition digit :: "nat \<Rightarrow> char" where
  "digit d = ''0123456789'' ! d"

fun show_nat :: "nat \<Rightarrow> string" where
  "show_nat n = (if n < 10 then [digit n] else show_nat (n div 10) @ [digit (n mod 10)])"

declare show_nat.simps [simp del]

definition show_int :: "int \<Rightarrow> string" where
  "show_int k = (if k < 0 then CHR ''-'' # show_nat (nat (- k)) else show_nat (nat k))"

definition show_bool :: "bool \<Rightarrow> string" where
  "show_bool b = (if b then ''true'' else ''false'')"

text \<open>A word between apostrophes, as the source's message texts write it.\<close>

definition quoted :: "string \<Rightarrow> string" where
  "quoted x = CHR 0x27 # x @ [CHR 0x27]"

text \<open>\<open>strings.Join\<close>.\<close>

fun Join :: "string list \<Rightarrow> string \<Rightarrow> string" where
  "Join [] sep = []"
| "Join [x] sep = x"
| "Join (x # y # ys) sep = x @ sep @ Join (y # ys) sep"

subsection \<open>net/http and common/log\<close>

text \<open>\<open>http.NewRequest\<close> fails exactly when the URL does not parse.\<close>

definition NewRequest :: "'v lib \<Rightarrow> http_method \<Rightarrow> string \<Rightarrow> string option \<Rightarrow> error + request" where
  "NewRequest L m url b =
     (case url_Parse L url of
        Some e \<Rightarrow> Inl e
      | None \<Rightarrow> Inr \<lparr>Method = m, URL = url, Header = [], RawQuery = [], ReqBody = b\<rparr>)"

text \<open>\<open>req.Header.Set\<close> replaces the values stored under the key.\<close>

definition Header_Set :: "string \<Rightarrow> string \<Rightarrow> request \<Rightarrow> request" where
  "Header_Set k v req = req\<lparr>Header := filter (\<lambda>kv. fst kv \<noteq> k) (Header req) @ [(k, v)]\<rparr>"

definition Header_Get :: "request \<Rightarrow> string \<Rightarrow> string option" where
  "Header_Get req k = map_of (Header req) k"

text \<open>\<open>q := req.URL.Query(); q.Add(k, v); req.URL.RawQuery = q.Encode()\<close>.\<close>

definition Query_Add :: "string \<Rightarrow> string \<Rightarrow> request \<Rightarrow> request" where
  "Query_Add k v req = req\<lparr>RawQuery := RawQuery req @ [(k, v)]\<rparr>"

text \<open>One round trip: the request goes on the wire and the network answers.\<close>

definition client_Do :: "request \<Rightarrow> world \<Rightarrow> do_result \<times> world" where
  "client_Do req w = (net w (length (sent w)) req, w\<lparr>sent := sent w @ [req]\<rparr>)"

text \<open>\<open>http.Get\<close>: build a GET request for the URL and send it with the default client.\<close>

definition http_Get :: "'v lib \<Rightarrow> string \<Rightarrow> world \<Rightarrow> do_result \<times> world" where
  "http_Get L url w =
     (case NewRequest L GET url None of
        Inl e \<Rightarrow> (DoErr e, w)
      | Inr req \<Rightarrow> client_Do req w)"

definition io_ReadAll :: "body \<Rightarrow> string \<times> error option" where
  "io_ReadAll b = (data b, read_err b)"

text \<open>
  Modelled from the spec: the package common/log is not among the sources. Its
  \<open>Debugf\<close>, \<open>Infof\<close>, \<open>Printf\<close> and \<open>Warnf\<close> are taken to write one line at
  their level and to return, as the design has a failure that is logged be not fatal.
\<close>

definition log_line :: "level \<Rightarrow> string \<Rightarrow> world \<Rightarrow> world" where
  "log_line l s w = w\<lparr>logs := logs w @ [(l, s)]\<rparr>"

text \<open>The requests a call put on the wire: those in \<open>w'\<close> that were not yet in \<open>w\<close>.\<close>

definition issued :: "world \<Rightarrow> world \<Rightarrow> request list" where
  "issued w w' = drop (length (sent w)) (sent w')"

subsection \<open>Wire encoder\<close>

text \<open>buildTrxPutEdn: the loop leaves with the first marshalling error.\<close>

fun put_ops :: "'v lib \<Rightarrow> 'v list \<Rightarrow> string list \<Rightarrow> error + string list" where
  "put_ops L [] trxVector = Inr trxVector"
| "put_ops L (tx # trxs) trxVector =
     (case edn_Marshal L tx of
        Inl err \<Rightarrow> Inl err
      | Inr txEdn \<Rightarrow> put_ops L trxs (trxVector @ [''[:xtdb.api/put '' @ txEdn @ '']'']))"

definition buildTrxPutEdn :: "'v lib \<Rightarrow> 'v list \<Rightarrow> string \<times> error option" where
  "buildTrxPutEdn L trxs =
     (case put_ops L trxs [] of
        Inl err \<Rightarrow> ('''', Some err)
      | Inr trxVector \<Rightarrow> (''{:tx-ops ['' @ Join trxVector '''' @ '']}'', None))"

fun evict_ops :: "'v lib \<Rightarrow> string list \<Rightarrow> string list \<Rightarrow> string list" where
  "evict_ops L [] trxVector = trxVector"
| "evict_ops L (xtID # xtIDs) trxVector =
     evict_ops L xtIDs (trxVector @ [''[:xtdb.api/evict '' @ strconv_Quote L xtID @ '']''])"

definition buildTrxEvictEdn :: "'v lib \<Rightarrow> string list \<Rightarrow> string \<times> error option" where
  "buildTrxEvictEdn L xtIDs =
     (''{:tx-ops ['' @ Join (evict_ops L xtIDs []) '''' @ '']}'', None)"

subsection \<open>Consistency coordinator: AwaitTx\<close>

definition AwaitTx :: "'v lib \<Rightarrow> storage \<Rightarrow> int \<Rightarrow> world \<Rightarrow> error option \<times> world" where
  "AwaitTx L s txID w =
     (let url = address s @ ''/_xtdb/await-tx?tx-id='' @ show_int txID @ ''&timeout=5000'' in
      case http_Get L url w of
        (DoErr err, w1) \<Rightarrow>
          (Some (GoError (''failed awaiting transaction '' @ show_int txID @ '', err='' @ message err)), w1)
      | (DoResp resp, w1) \<Rightarrow>
          if StatusCode resp \<noteq> 200 then
            (let (dat, _) = io_ReadAll (Body resp) in
             (Some (GoError (''failed awaiting transaction '' @ show_int txID @ '', code=''
                @ show_int (StatusCode resp) @ '', response='' @ dat)), w1))
          else (None, w1))"

subsection \<open>Transaction client\<close>

definition SubmitPutTx ::
  "'v lib \<Rightarrow> storage \<Rightarrow> 'v list \<Rightarrow> world \<Rightarrow> (TxResponse option \<times> error option) \<times> world" where
  "SubmitPutTx L s trxs w =
     (let url = address s @ ''/_xtdb/submit-tx'' in
      case buildTrxPutEdn L trxs of
        (_, Some err) \<Rightarrow> ((None, Some err), w)
      | (txOpsEdn, None) \<Rightarrow>
      (case NewRequest L POST url (Some txOpsEdn) of
        Inl err \<Rightarrow> ((None, Some err), w)
      | Inr req0 \<Rightarrow>
      (let req = Header_Set ''accept'' ''application/edn''
                   (Header_Set ''content-type'' ''application/edn'' req0) in
       case client_Do req w of
        (DoErr err, w1) \<Rightarrow> ((None, Some err), w1)
      | (DoResp resp, w1) \<Rightarrow>
          if StatusCode resp = 202 then
            (let (txResponse, derr) = edn_Decode_TxResponse L (Body resp);
                 w2 = (case derr of
                         Some err \<Rightarrow>
                           log_line Warn (''error decoding transaction response, err='' @ message err) w1
                       | None \<Rightarrow> w1);
                 w3 = (if TxID txResponse > 0 then
                         (case AwaitTx L s (TxID txResponse) w2 of
                            (Some err, w') \<Rightarrow> log_line Warn (fmt_Sprintf0 L (message err)) w'
                          | (None, w') \<Rightarrow> w')
                       else w2)
             in ((Some txResponse, None), w3))
          else
            (let (dat, _) = io_ReadAll (Body resp);
                 w2 = log_line Print (''unknown status code='' @ show_int (StatusCode resp)
                        @ '', body='' @ dat) w1
             in ((None, Some (GoError (''received unknown status code='' @ show_int (StatusCode resp)))),
                 w2)))))"

definition SubmitEvictTx ::
  "'v lib \<Rightarrow> storage \<Rightarrow> string list \<Rightarrow> world \<Rightarrow> (TxResponse option \<times> error option) \<times> world" where
  "SubmitEvictTx L s xtIDs w =
     (if length xtIDs = 0 then ((None, Some (GoError ''need at least one xt/id to evict'')), w)
      else
      (let url = address s @ ''/_xtdb/submit-tx'' in
      case buildTrxEvictEdn L xtIDs of
        (_, Some err) \<Rightarrow> ((None, Some err), w)
      | (txOpsEdn, None) \<Rightarrow>
      (case NewRequest L POST url (Some txOpsEdn) of
        Inl err \<Rightarrow> ((None, Some err), w)
      | Inr req0 \<Rightarrow>
      (let req = Header_Set ''accept'' ''application/edn''
                   (Header_Set ''content-type'' ''application/edn'' req0) in
       case client_Do req w of
        (DoErr err, w1) \<Rightarrow> ((None, Some err), w1)
      | (DoResp resp, w1) \<Rightarrow>
          if StatusCode resp = 202 then
            (let (txResponse, derr) = edn_Decode_TxResponse L (Body resp);
                 w2 = (case derr of
                         Some err \<Rightarrow>
                           log_line Info (''error decoding transaction response, err='' @ message err) w1
                       | None \<Rightarrow> w1);
                 w3 = (if TxID txResponse > 0 then
                         (case AwaitTx L s (TxID txResponse) w2 of
                            (Some err, w') \<Rightarrow> log_line Warn (fmt_Sprintf0 L (message err)) w'
                          | (None, w') \<Rightarrow> w')
                       else w2)
             in ((Some txResponse, None), w3))
          else
            (let (dat, _) = io_ReadAll (Body resp);
                 w2 = log_line Info (''unknown status code='' @ show_int (StatusCode resp)
                        @ '', body='' @ dat) w1
             in ((None, Some (GoError (''received unknown status code='' @ show_int (StatusCode resp)))),
                 w2))))))"

text \<open>buildPersistPayload wraps every payload as \<open>["put", payload]\<close> under \<open>"tx-ops"\<close>.\<close>

definition buildPersistPayload :: "'v lib \<Rightarrow> 'v list \<Rightarrow> string option \<times> error option" where
  "buildPersistPayload L payloads =
     (case json_Marshal_tx_ops L payloads of
        Inl err \<Rightarrow> (None, Some err)
      | Inr b \<Rightarrow> (Some b, None))"

definition PersistEntities ::
  "'v lib \<Rightarrow> storage \<Rightarrow> 'v list \<Rightarrow> world \<Rightarrow> (int \<times> error option) \<times> world" where
  "PersistEntities L s payloads w =
     (let url = address s @ ''/_xtdb/submit-tx'' in
      case buildPersistPayload L payloads of
        (_, Some err) \<Rightarrow> ((0, Some err), w)
      | (bytePayload, None) \<Rightarrow>
      (case NewRequest L POST url bytePayload of
        Inl err \<Rightarrow> ((0, Some err), w)
      | Inr req0 \<Rightarrow>
      (let req = Header_Set ''accept'' ''application/json''
                   (Header_Set ''content-type'' ''application/json'' req0) in
       case client_Do req w of
        (DoErr err, w1) \<Rightarrow> ((0, Some err), w1)
      | (DoResp resp, w1) \<Rightarrow>
          if StatusCode resp = 202 then
            (let (txResponse, derr) = json_Decode_TxResponse L (Body resp);
                 w2 = (case derr of
                         Some err \<Rightarrow>
                           log_line Warn (''error decoding transaction response, err='' @ message err) w1
                       | None \<Rightarrow> w1);
                 w3 = (if TxID txResponse > 0 then
                         (case AwaitTx L s (TxID txResponse) w2 of
                            (Some err, w') \<Rightarrow> log_line Warn (fmt_Sprintf0 L (message err)) w'
                          | (None, w') \<Rightarrow> w')
                       else w2)
             in ((TxID txResponse, None), w3))
          else ((0, Some (GoError ''not 202'')), w1))))"

definition GetEntity ::
  "'v lib \<Rightarrow> storage \<Rightarrow> string \<Rightarrow> world \<Rightarrow> (string option \<times> error option) \<times> world" where
  "GetEntity L s xtId w =
     (let url = address s @ ''/_xtdb/entity'' in
      case NewRequest L GET url None of
        Inl err \<Rightarrow> ((None, Some err), w)
      | Inr req0 \<Rightarrow>
      (let req = Query_Add ''eid'' xtId (Header_Set ''accept'' ''application/edn'' req0) in
       case client_Do req w of
        (DoErr err, w1) \<Rightarrow> ((None, Some err), w1)
      | (DoResp resp, w1) \<Rightarrow>
          if StatusCode resp = 200 then
            (let (dat, err) = io_ReadAll (Body resp) in ((Some dat, err), w1))
          else if StatusCode resp = 404 then ((None, None), w1)
          else ((None, Some (GoError (''unknown http response returned fetching entity, status=''
                  @ show_int (StatusCode resp)))), w1)))"

definition GetEntityHistory ::
  "'v lib \<Rightarrow> storage \<Rightarrow> string \<Rightarrow> string \<Rightarrow> bool \<Rightarrow> world
     \<Rightarrow> (string option \<times> error option) \<times> world" where
  "GetEntityHistory L s eid sortOrder withDocs w =
     (let url = address s @ ''/_xtdb/entity'' in
      if sortOrder \<noteq> ''asc'' \<and> sortOrder \<noteq> ''desc'' then
        ((None, Some (GoError (''wrong sort order input, accept '' @ quoted ''asc''
           @ '' or '' @ quoted ''desc''))), w)
      else
      (case NewRequest L GET url None of
        Inl err \<Rightarrow> ((None, Some err), w)
      | Inr req0 \<Rightarrow>
      (let req = Query_Add ''with-docs'' (show_bool withDocs)
                   (Query_Add ''history'' ''true''
                     (Query_Add ''sort-order'' sortOrder
                       (Query_Add ''eid'' eid
                         (Header_Set ''accept'' ''application/edn'' req0)))) in
       case client_Do req w of
        (DoErr err, w1) \<Rightarrow> ((None, Some err), w1)
      | (DoResp resp, w1) \<Rightarrow>
          if StatusCode resp = 200 then
            (case io_ReadAll (Body resp) of
               (_, Some err) \<Rightarrow> ((None, Some err), w1)
             | (b, None) \<Rightarrow> ((Some b, None), w1))
          else if StatusCode resp = 404 then ((None, None), w1)
          else
            (let (respErr, _) = io_ReadAll (Body resp) in
             ((None, Some (GoError (''unknown status code ('' @ show_int (StatusCode resp)
                @ ''), response='' @ respErr))), w1)))))"

subsection \<open>Query normalizer\<close>

definition queryRequest ::
  "'v lib \<Rightarrow> storage \<Rightarrow> string \<Rightarrow> string \<Rightarrow> world \<Rightarrow> (string option \<times> error option) \<times> world" where
  "queryRequest L s ednQuery contentType w =
     (let url = address s @ ''/_xtdb/query'' in
      case NewRequest L POST url (Some ednQuery) of
        Inl err \<Rightarrow> ((None, Some err), w)
      | Inr req0 \<Rightarrow>
      (let req = Header_Set ''content-type'' ''application/edn''
                   (Header_Set ''accept'' contentType req0) in
       case client_Do req w of
        (DoErr err, w1) \<Rightarrow> ((None, Some err), w1)
      | (DoResp resp, w1) \<Rightarrow>
          (case io_ReadAll (Body resp) of
             (_, Some err) \<Rightarrow> ((None, Some err), w1)
           | (b, None) \<Rightarrow> ((Some b, None), w1))))"

definition QueryRaw ::
  "'v lib \<Rightarrow> storage \<Rightarrow> string \<Rightarrow> world \<Rightarrow> (string option \<times> error option) \<times> world" where
  "QueryRaw L s ednQuery w = queryRequest L s ednQuery ''application/edn'' w"

definition QueryRawAsJson ::
  "'v lib \<Rightarrow> storage \<Rightarrow> string \<Rightarrow> world \<Rightarrow> (string option \<times> error option) \<times> world" where
  "QueryRawAsJson L s ednQuery w = queryRequest L s ednQuery ''application/json'' w"

text \<open>
  The loop \<open>for _, l := range p { r = append(r, l[0]) }\<close>: indexing a row of length 0
  is a runtime panic, which no caller of the loop recovers.
\<close>

fun first_columns :: "'v list list \<Rightarrow> 'v list \<Rightarrow> 'v list outcome" where
  "first_columns [] r = Returns r"
| "first_columns (l # p) r =
     (case l of
        [] \<Rightarrow> Panics ''runtime error: index out of range [0] with length 0''
      | c # _ \<Rightarrow> first_columns p (r @ [c]))"

definition Query ::
  "'v lib \<Rightarrow> storage \<Rightarrow> string \<Rightarrow> world \<Rightarrow> (string option \<times> error option) outcome \<times> world" where
  "Query L s ednQuery w =
     (case queryRequest L s ednQuery ''application/edn'' w of
        ((_, Some err), w1) \<Rightarrow> (Returns (None, Some err), w1)
      | ((b, None), w1) \<Rightarrow>
      (case edn_Unmarshal_rows L (case b of None \<Rightarrow> [] | Some x \<Rightarrow> x) of
        Inl err \<Rightarrow> (Returns (None, Some err), w1)
      | Inr p \<Rightarrow>
      (case first_columns p [] of
        Panics m \<Rightarrow> (Panics m, w1)
      | Returns r \<Rightarrow>
      (case edn_Marshal_rows L r of
        Inl err \<Rightarrow> (Returns (None, Some err), w1)
      | Inr resp \<Rightarrow> (Returns (Some resp, None), w1)))))"

definition QueryAsJson ::
  "'v lib \<Rightarrow> storage \<Rightarrow> string \<Rightarrow> world \<Rightarrow> (string option \<times> error option) outcome \<times> world" where
  "QueryAsJson L s ednQuery w =
     (case queryRequest L s ednQuery ''application/json'' w of
        ((_, Some err), w1) \<Rightarrow> (Returns (None, Some err), w1)
      | ((b, None), w1) \<Rightarrow>
      (case json_Unmarshal_rows L (case b of None \<Rightarrow> [] | Some x \<Rightarrow> x) of
        Inl err \<Rightarrow> (Returns (None, Some err), w1)
      | Inr p \<Rightarrow>
      (case first_columns p [] of
        Panics m \<Rightarrow> (Panics m, w1)
      | Returns r \<Rightarrow>
      (case json_Marshal_rows L r of
        Inl err \<Rightarrow> (Returns (None, Some err), w1)
      | Inr resp \<Rightarrow> (Returns (Some resp, None), w1)))))"

subsection \<open>Consistency coordinator: Sync\<close>

text \<open>
  Sync starts a goroutine that polls and blocks its caller on \<open>ctx.Done()\<close>. The model
  runs both on one clock, in nanoseconds since the call: \<open>lat i\<close> is the time the
  \<open>i\<close>-th \<open>http.Get\<close> of the goroutine takes. The context is done once
  \<open>cancelFn\<close> was called or the deadline has passed; the caller, blocked until then,
  is released at that instant and returns what it reads in \<open>response\<close> at that
  instant. When the deadline coincides with the end of a blocking call of the goroutine,
  the caller reads first. Nothing synchronises the two accesses in the source.
\<close>

record sync_state =
  env :: world
  i :: int
  now :: int
  response :: "string list"
  cancelled :: bool
  exited :: bool
  returned :: "(error option \<times> int) option"

text \<open>\<open>timeout.Milliseconds()\<close>: integer division truncating toward zero.\<close>

definition Milliseconds :: "int \<Rightarrow> int" where
  "Milliseconds d = (if d < 0 then - ((- d) div 1000000) else d div 1000000)"

definition ctx_Done :: "int \<Rightarrow> sync_state \<Rightarrow> bool" where
  "ctx_Done timeout st = (cancelled st \<or> timeout \<le> now st)"

text \<open>
  The caller's code after \<open><-ctx.Done()\<close>; \<open>returned\<close> keeps its result and the
  time of the return.
\<close>

definition caller_return :: "'v lib \<Rightarrow> string list \<Rightarrow> error option" where
  "caller_return L resp =
     (if length resp > 0 then Some (GoError (fmt_Sprintf0 L (Join resp ''; ''))) else None)"

definition release :: "'v lib \<Rightarrow> sync_state \<Rightarrow> sync_state" where
  "release L st =
     (if returned st = None then st\<lparr>returned := Some (caller_return L (response st), now st)\<rparr>
      else st)"

text \<open>The goroutine is blocked for \<open>d\<close> nanoseconds.\<close>

definition elapse :: "'v lib \<Rightarrow> int \<Rightarrow> int \<Rightarrow> sync_state \<Rightarrow> sync_state" where
  "elapse L timeout d st =
     (if returned st = None \<and> timeout \<le> now st + d
      then (release L (st\<lparr>now := max (now st) timeout\<rparr>))\<lparr>now := now st + d\<rparr>
      else st\<lparr>now := now st + d\<rparr>)"

text \<open>
  One pass through the body of the \<open>for\<close> loop. The \<open>select\<close> takes the
  \<open>ctx.Done()\<close> case whenever the context is done, and that case has no \<open>break\<close>:
  the loop goes on with the next \<open>i\<close>.
\<close>

definition loop_body :: "'v lib \<Rightarrow> (int \<Rightarrow> nat) \<Rightarrow> string \<Rightarrow> int \<Rightarrow> sync_state \<Rightarrow> sync_state" where
  "loop_body L lat url timeout st =
     (if ctx_Done timeout st then
        st\<lparr>response := response st @ [''timeout reached''], i := i st + 1\<rparr>
      else
        (let w0 = log_line Debug (''attempt='' @ show_int (i st) @ '' - trying sync to xtdb at '' @ url)
                    (env st);
             (res, w1) = http_Get L url w0;
             st1 = elapse L timeout (int (lat (i st))) (st\<lparr>env := w1\<rparr>)
         in case res of
              DoErr err \<Rightarrow>
                (elapse L timeout 2000000000
                   (st1\<lparr>response := response st1 @
                      [''attempt='' @ show_int (i st) @ '', failed sync xtdb, error='' @ message err]\<rparr>))
                \<lparr>i := i st + 1\<rparr>
            | DoResp resp \<Rightarrow>
                if StatusCode resp \<noteq> 200 then
                  (let (dat, _) = io_ReadAll (Body resp) in
                   (elapse L timeout 2000000000
                      (st1\<lparr>response := response st1 @
                         [''attempt='' @ show_int (i st) @ '', failed sync xtdb, status=''
                            @ show_int (StatusCode resp) @ '', response='' @ dat]\<rparr>))
                   \<lparr>i := i st + 1\<rparr>)
                else release L (st1\<lparr>response := [], cancelled := True, exited := True\<rparr>)))"

text \<open>The goroutine for \<open>n\<close> passes, or until it leaves the loop.\<close>

fun goroutine :: "nat \<Rightarrow> 'v lib \<Rightarrow> (int \<Rightarrow> nat) \<Rightarrow> string \<Rightarrow> int \<Rightarrow> sync_state \<Rightarrow> sync_state" where
  "goroutine 0 L lat url timeout st = st"
| "goroutine (Suc n) L lat url timeout st =
     (if exited st then st else goroutine n L lat url timeout (loop_body L lat url timeout st))"

text \<open>
  Sync after \<open>n\<close> passes of its goroutine. \<open>returned\<close> of the result is \<open>None\<close>
  while the caller is still blocked, \<open>exited\<close> tells whether the goroutine has ended.
\<close>

definition Sync :: "nat \<Rightarrow> 'v lib \<Rightarrow> (int \<Rightarrow> nat) \<Rightarrow> storage \<Rightarrow> int \<Rightarrow> world \<Rightarrow> sync_state" where
  "Sync n L lat s timeout w =
     (let url = address s @ ''/_xtdb/sync?timeout='' @ show_int (Milliseconds timeout) in
      goroutine n L lat url timeout
        (elapse L timeout 0
           \<lparr>env = w, i = 1, now = 0, response = [], cancelled = False, exited = False,
            returned = None\<rparr>))"

section \<open>Vocabulary of the properties\<close>

subsection \<open>The requests the operations build\<close>

definition submit_request :: "storage \<Rightarrow> string \<Rightarrow> string \<Rightarrow> request" where
  "submit_request s enc payload =
     \<lparr>Method = POST, URL = address s @ ''/_xtdb/submit-tx'',
      Header = [(''content-type'', enc), (''accept'', enc)],
      RawQuery = [], ReqBody = Some payload\<rparr>"

definition entity_request :: "storage \<Rightarrow> string \<Rightarrow> request" where
  "entity_request s xtId =
     \<lparr>Method = GET, URL = address s @ ''/_xtdb/entity'',
      Header = [(''accept'', ''application/edn'')],
      RawQuery = [(''eid'', xtId)], ReqBody = None\<rparr>"

definition history_request :: "storage \<Rightarrow> string \<Rightarrow> string \<Rightarrow> bool \<Rightarrow> request" where
  "history_request s eid sortOrder withDocs =
     \<lparr>Method = GET, URL = address s @ ''/_xtdb/entity'',
      Header = [(''accept'', ''application/edn'')],
      RawQuery = [(''eid'', eid), (''sort-order'', sortOrder), (''history'', ''true''),
                  (''with-docs'', show_bool withDocs)],
      ReqBody = None\<rparr>"

definition query_request :: "storage \<Rightarrow> string \<Rightarrow> string \<Rightarrow> request" where
  "query_request s ednQuery contentType =
     \<lparr>Method = POST, URL = address s @ ''/_xtdb/query'',
      Header = [(''accept'', contentType), (''content-type'', ''application/edn'')],
      RawQuery = [], ReqBody = Some ednQuery\<rparr>"

text \<open>The store's answer to \<open>req\<close>, were it the next request on the wire.\<close>

definition reply :: "world \<Rightarrow> request \<Rightarrow> do_result" where
  "reply w req = net w (length (sent w)) req"

text \<open>The world once \<open>req\<close> has gone out.\<close>

definition on_wire :: "world \<Rightarrow> request \<Rightarrow> world" where
  "on_wire w req = w\<lparr>sent := sent w @ [req]\<rparr>"

subsection \<open>Logging of the best-effort steps\<close>

text \<open>
  What the write path leaves in the log when the steps after a 202 fail: \<open>dec\<close> is the
  outcome of decoding the receipt, logged at level \<open>lvl\<close>; \<open>w1\<close> is the world right
  after the submission, in which the await runs; \<open>w'\<close> is the world at return.
\<close>

definition failures_logged ::
  "'v lib \<Rightarrow> storage \<Rightarrow> level \<Rightarrow> TxResponse \<times> error option \<Rightarrow> world \<Rightarrow> world \<Rightarrow> bool" where
  "failures_logged L s lvl dec w1 w' =
     ((\<forall>err. snd dec = Some err \<longrightarrow>
         (lvl, ''error decoding transaction response, err='' @ message err) \<in> set (logs w'))
      \<and> (\<forall>err. 0 < TxID (fst dec) \<longrightarrow> fst (AwaitTx L s (TxID (fst dec)) w1) = Some err \<longrightarrow>
         (Warn, fmt_Sprintf0 L (message err)) \<in> set (logs w')))"

subsection \<open>Headers\<close>

definition headers_are :: "request \<Rightarrow> string option \<Rightarrow> string option \<Rightarrow> bool" where
  "headers_are req acc ct =
     (Header_Get req ''accept'' = acc \<and> Header_Get req ''content-type'' = ct)"

text \<open>Accept and content-type are both set and name one and the same encoding.\<close>

definition single_encoding :: "request \<Rightarrow> bool" where
  "single_encoding req =
     (headers_are req (Some ''application/edn'') (Some ''application/edn'')
      \<or> headers_are req (Some ''application/json'') (Some ''application/json''))"

subsection \<open>Stores that never report success\<close>

definition never_ok :: "world \<Rightarrow> bool" where
  "never_ok w =
     (\<forall>n req. case net w n req of DoErr _ \<Rightarrow> True | DoResp r \<Rightarrow> StatusCode r \<noteq> 200)"

subsection \<open>Concrete libraries, stores and networks\<close>

text \<open>
  A small codec over strings for running the model: a value is its own EDN text, the
  empty string stands for a value \<open>edn.Marshal\<close> rejects, a URL with a blank does not
  parse, and a receipt that breaks off after the transaction id leaves the id stored and
  reports the error.
\<close>

definition decode_receipt :: "body \<Rightarrow> TxResponse \<times> error option" where
  "decode_receipt b =
     (if data b = ''{:xtdb.api/tx-id 7'' then
        (\<lparr>TxID = 7, TxTime = ''0001-01-01T00:00:00Z''\<rparr>, Some (GoError ''unexpected EOF''))
      else (zero_TxResponse, Some (GoError ''EOF'')))"

definition decode_rows :: "string \<Rightarrow> error + string list list" where
  "decode_rows b =
     (if b = ''[[a b] [c d]]'' then Inr [[''a'', ''b''], [''c'', ''d'']]
      else if b = ''[[a] []]'' then Inr [[''a''], []]
      else Inl (GoError ''unexpected input''))"

definition example_lib :: "string lib" where
  "example_lib =
     \<lparr>url_Parse = (\<lambda>u. if CHR '' '' \<in> set u then Some (GoError ''invalid character in URL'')
                         else None),
      strconv_Quote = (\<lambda>x. CHR 0x22 # x @ [CHR 0x22]),
      edn_Marshal = (\<lambda>v. if v = [] then Inl (GoError ''unsupported type'') else Inr v),
      edn_Marshal_rows = (\<lambda>r. Inr (''['' @ Join r '' '' @ '']'')),
      edn_Unmarshal_rows = decode_rows,
      edn_Decode_TxResponse = decode_receipt,
      json_Marshal_tx_ops = (\<lambda>ps. Inr (''{tx-ops: ['' @ Join ps '','' @ '']}'')),
      json_Marshal_rows = (\<lambda>r. Inr (''['' @ Join r '','' @ '']'')),
      json_Unmarshal_rows = decode_rows,
      json_Decode_TxResponse = decode_receipt,
      fmt_Sprintf0 = (\<lambda>f. f)\<rparr>"

definition example_store :: storage where
  "example_store = \<lparr>address = ''http://localhost:3000''\<rparr>"

text \<open>A network that answers the first request with \<open>r1\<close> and every later one with \<open>r2\<close>.\<close>

definition replying :: "do_result \<Rightarrow> do_result \<Rightarrow> world" where
  "replying r1 r2 = \<lparr>net = (\<lambda>n req. if n = 0 then r1 else r2), sent = [], logs = []\<rparr>"

definition status_reply :: "int \<Rightarrow> string \<Rightarrow> do_result" where
  "status_reply code txt = DoResp \<lparr>StatusCode = code, Body = \<lparr>data = txt, read_err = None\<rparr>\<rparr>"

definition refusing_world :: world where
  "refusing_world =
     \<lparr>net = (\<lambda>n req. DoErr (GoError ''connection refused'')), sent = [], logs = []\<rparr>"

subsection \<open>Invariants of Sync\<close>

text \<open>While the caller is blocked, the context is not done and the goroutine runs.\<close>

definition blocked :: "int \<Rightarrow> sync_state \<Rightarrow> bool" where
  "blocked T st = (returned st = None \<longrightarrow> \<not> cancelled st \<and> \<not> exited st \<and> now st < T)"

text \<open>What holds of Sync's state as long as no poll has succeeded.\<close>

definition polling :: "int \<Rightarrow> sync_state \<Rightarrow> bool" where
  "polling T st =
     (never_ok (env st) \<and> \<not> cancelled st \<and> 0 \<le> now st
      \<and> (returned st = None \<longrightarrow> now st < T)
      \<and> (\<forall>r t. returned st = Some (r, t) \<longrightarrow> t = max 0 T))"

text \<open>
  While every poll fails, the log is empty only before the first attempt has been
  recorded, and the caller leaves without an error only if it left by then.
\<close>

definition recording :: "(int \<Rightarrow> nat) \<Rightarrow> int \<Rightarrow> sync_state \<Rightarrow> bool" where
  "recording lat T st =
     (polling T st
      \<and> (if i st = 1 then now st = 0 \<and> response st = [] else 1 < i st \<and> response st \<noteq> [])
      \<and> (\<forall>t. returned st = Some (None, t) \<longrightarrow> T \<le> int (lat 1)))"


text \<open>
  The result the caller took away was computed from the lines the log held when it was
  released, a front part of the log the goroutine goes on to write.
\<close>

definition listed :: "'v lib \<Rightarrow> sync_state \<Rightarrow> bool" where
  "listed L st =
     (\<forall>r t. returned st = Some (r, t) \<longrightarrow>
        (\<exists>seen later. response st = seen @ later \<and> r = caller_return L seen))"

section \<open>Auxiliary facts\<close>

subsection \<open>Worlds, logs and the requests of AwaitTx\<close>

lemma sent_log_line [simp]: "sent (log_line l m w) = sent w"
  by (simp add: log_line_def)

lemma net_log_line [simp]: "net (log_line l m w) = net w"
  by (simp add: log_line_def)

lemma logs_log_line [simp]: "logs (log_line l m w) = logs w @ [(l, m)]"
  by (simp add: log_line_def)

lemma issued_same [simp]: "issued w w = []"
  by (simp add: issued_def)

lemma issued_log_line [simp]: "issued w (log_line l m w') = issued w w'"
  by (simp add: issued_def)

lemma issued_on_wire [simp]: "issued w (on_wire w req) = [req]"
  by (simp add: issued_def on_wire_def)

lemma reply_replying [simp]: "reply (replying r1 r2) req = r1"
  by (simp add: reply_def replying_def)

lemma sent_http_Get:
  "sent (snd (http_Get L url w)) =
     sent w @ (case url_Parse L url of Some e \<Rightarrow> [] | None \<Rightarrow>
        [\<lparr>Method = GET, URL = url, Header = [], RawQuery = [], ReqBody = None\<rparr>])"
  by (simp add: http_Get_def NewRequest_def client_Do_def split: option.splits)

lemma logs_http_Get [simp]: "logs (snd (http_Get L url w)) = logs w"
  by (simp add: http_Get_def NewRequest_def client_Do_def split: option.splits sum.splits)

lemma net_http_Get [simp]: "net (snd (http_Get L url w)) = net w"
  by (simp add: http_Get_def NewRequest_def client_Do_def split: option.splits sum.splits)

lemma AwaitTx_world: "snd (AwaitTx L s t w) = snd (http_Get L (address s @ ''/_xtdb/await-tx?tx-id='' @ show_int t @ ''&timeout=5000'') w)"
  by (simp add: AwaitTx_def Let_def io_ReadAll_def split: prod.splits do_result.splits)

lemma sent_AwaitTx:
  "\<exists>rest. sent (snd (AwaitTx L s t w)) = sent w @ rest \<and> (\<forall>r\<in>set rest. Method r = GET \<and> Header r = [])"
  by (simp add: AwaitTx_world sent_http_Get split: option.splits)

lemma logs_AwaitTx [simp]: "logs (snd (AwaitTx L s t w)) = logs w"
  by (simp add: AwaitTx_world)

lemma AwaitTx_log_line [simp]: "fst (AwaitTx L s t (log_line l m w)) = fst (AwaitTx L s t w)"
  by (simp add: AwaitTx_def http_Get_def client_Do_def log_line_def Let_def io_ReadAll_def
      split: sum.splits do_result.splits)

lemma AwaitTx_logs_pair: "AwaitTx L s t w = (e, w') \<Longrightarrow> logs w' = logs w"
  using logs_AwaitTx [of L s t w] by simp

lemma AwaitTx_log_line_pair:
  "AwaitTx L s t (log_line l m w) = (e, w') \<Longrightarrow> fst (AwaitTx L s t w) = e"
  using AwaitTx_log_line [of L s t l m w] by simp

lemma AwaitTx_sent_pair:
  "AwaitTx L s t w0 = (e, w') \<Longrightarrow>
     \<exists>rest. sent w' = sent w0 @ rest \<and> (\<forall>r\<in>set rest. Method r = GET \<and> Header r = [])"
  using sent_AwaitTx [of L s t w0] by simp

lemma AwaitTx_headers:
  "\<forall>req\<in>set (issued w (snd (AwaitTx L s t w))). Method req = GET \<and> Header req = []"
  using sent_AwaitTx [of L s t w] by (auto simp: issued_def)

lemma AwaitTx_no_headers:
  "\<forall>req\<in>set (issued w (snd (AwaitTx L s t w))). Header req = []"
  using AwaitTx_headers [of w L s t] by blast

lemma AwaitTx_issued:
  "url_Parse L (address s @ ''/_xtdb/await-tx?tx-id='' @ show_int t @ ''&timeout=5000'') = None \<Longrightarrow>
   issued w (snd (AwaitTx L s t w)) =
     [\<lparr>Method = GET, URL = address s @ ''/_xtdb/await-tx?tx-id='' @ show_int t @ ''&timeout=5000'',
       Header = [], RawQuery = [], ReqBody = None\<rparr>]"
  by (simp add: AwaitTx_world sent_http_Get issued_def)

subsection \<open>The loops of the encoder and of the normalizer\<close>

lemma put_ops_error:
  "\<exists>tx\<in>set trxs. isl (edn_Marshal L tx) \<Longrightarrow>
   \<exists>tx\<in>set trxs. \<exists>err. edn_Marshal L tx = Inl err \<and> put_ops L trxs acc = Inl err"
proof (induction trxs arbitrary: acc)
  case Nil
  then show ?case by simp
next
  case (Cons t ts)
  show ?case
  proof (cases "edn_Marshal L t")
    case (Inl e)
    then show ?thesis by simp
  next
    case (Inr x)
    with Cons.prems have "\<exists>tx\<in>set ts. isl (edn_Marshal L tx)" by auto
    from Cons.IH [OF this] Inr show ?thesis by simp
  qed
qed

lemma buildTrxEvictEdn_pair: "buildTrxEvictEdn L xtIDs = (fst (buildTrxEvictEdn L xtIDs), None)"
  by (simp add: buildTrxEvictEdn_def)

lemma first_columns_nonempty:
  "\<forall>row\<in>set p. row \<noteq> [] \<Longrightarrow> first_columns p acc = Returns (acc @ map (\<lambda>row. row ! 0) p)"
  by (induction p arbitrary: acc) (auto split: list.splits)

lemma first_columns_panics:
  "(\<exists>m. first_columns p acc = Panics m) \<longleftrightarrow> [] \<in> set p"
  by (induction p arbitrary: acc) (auto split: list.splits)

lemma length_two: "length r = 2 \<Longrightarrow> r = [r ! 0, r ! 1]"
  by (cases r; cases "tl r") (auto simp: numeral_2_eq_2)

subsection \<open>What each operation puts on the wire\<close>

lemma GetEntity_issued:
  "url_Parse L (address s @ ''/_xtdb/entity'') = None \<Longrightarrow>
   issued w (snd (GetEntity L s xtId w)) = [entity_request s xtId]"
  by (auto simp: GetEntity_def NewRequest_def Header_Set_def Query_Add_def
        client_Do_def issued_def Let_def io_ReadAll_def entity_request_def
        split: prod.splits do_result.splits option.splits)

lemma GetEntityHistory_issued:
  "url_Parse L (address s @ ''/_xtdb/entity'') = None \<Longrightarrow> sortOrder = ''asc'' \<or> sortOrder = ''desc'' \<Longrightarrow>
   issued w (snd (GetEntityHistory L s eid sortOrder withDocs w)) = [history_request s eid sortOrder withDocs]"
  by (auto simp: GetEntityHistory_def NewRequest_def Header_Set_def Query_Add_def
        client_Do_def issued_def Let_def io_ReadAll_def history_request_def
        split: prod.splits do_result.splits option.splits)

lemma queryRequest_issued:
  "url_Parse L (address s @ ''/_xtdb/query'') = None \<Longrightarrow>
   issued w (snd (queryRequest L s q enc w)) = [query_request s q enc]"
  by (auto simp: queryRequest_def NewRequest_def Header_Set_def
        client_Do_def issued_def Let_def io_ReadAll_def query_request_def
        split: prod.splits do_result.splits option.splits)

lemma queryRequest_ok:
  assumes "url_Parse L (address s @ ''/_xtdb/query'') = None"
    and "reply w (query_request s q enc) = DoResp resp"
    and "read_err (Body resp) = None"
  shows "queryRequest L s q enc w = ((Some (data (Body resp)), None), on_wire w (query_request s q enc))"
  using assms
  by (simp add: queryRequest_def NewRequest_def Header_Set_def client_Do_def reply_def on_wire_def
      query_request_def io_ReadAll_def Let_def)

lemma Query_world: "snd (Query L s q w) = snd (queryRequest L s q ''application/edn'' w)"
  by (auto simp: Query_def split: prod.splits option.splits sum.splits outcome.splits)

lemma QueryAsJson_world: "snd (QueryAsJson L s q w) = snd (queryRequest L s q ''application/json'' w)"
  by (auto simp: QueryAsJson_def split: prod.splits option.splits sum.splits outcome.splits)

lemma SubmitPutTx_issued:
  assumes "buildTrxPutEdn L trxs = (payload, None)"
    and "url_Parse L (address s @ ''/_xtdb/submit-tx'') = None"
  shows "\<exists>rest. issued w (snd (SubmitPutTx L s trxs w)) = submit_request s ''application/edn'' payload # rest"
  using assms
  by (auto simp: SubmitPutTx_def NewRequest_def Header_Set_def
        client_Do_def issued_def Let_def io_ReadAll_def submit_request_def
        split: prod.splits do_result.splits option.splits dest!: AwaitTx_sent_pair)

lemma SubmitEvictTx_issued:
  assumes "xtIDs \<noteq> []"
    and "url_Parse L (address s @ ''/_xtdb/submit-tx'') = None"
  shows "\<exists>rest. issued w (snd (SubmitEvictTx L s xtIDs w)) =
           submit_request s ''application/edn'' (fst (buildTrxEvictEdn L xtIDs)) # rest"
  using assms
  by (auto simp: SubmitEvictTx_def buildTrxEvictEdn_def NewRequest_def Header_Set_def
        client_Do_def issued_def Let_def io_ReadAll_def submit_request_def
        split: prod.splits do_result.splits option.splits dest!: AwaitTx_sent_pair)

lemma PersistEntities_issued:
  assumes "json_Marshal_tx_ops L payloads = Inr payload"
    and "url_Parse L (address s @ ''/_xtdb/submit-tx'') = None"
  shows "\<exists>rest. issued w (snd (PersistEntities L s payloads w)) = submit_request s ''application/json'' payload # rest"
  using assms
  by (auto simp: PersistEntities_def buildPersistPayload_def NewRequest_def Header_Set_def
        client_Do_def issued_def Let_def io_ReadAll_def submit_request_def
        split: prod.splits do_result.splits option.splits dest!: AwaitTx_sent_pair)

lemma SubmitPutTx_headers:
  "\<forall>req\<in>set (issued w (snd (SubmitPutTx L s trxs w))).
     if Method req = POST then headers_are req (Some ''application/edn'') (Some ''application/edn'')
     else Header req = []"
  by (auto simp: SubmitPutTx_def NewRequest_def Header_Set_def Header_Get_def headers_are_def
        client_Do_def issued_def Let_def io_ReadAll_def
        split: prod.splits do_result.splits option.splits sum.splits if_splits dest!: AwaitTx_sent_pair)

lemma SubmitEvictTx_headers:
  "\<forall>req\<in>set (issued w (snd (SubmitEvictTx L s xtIDs w))).
     if Method req = POST then headers_are req (Some ''application/edn'') (Some ''application/edn'')
     else Header req = []"
  by (auto simp: SubmitEvictTx_def NewRequest_def Header_Set_def Header_Get_def headers_are_def
        client_Do_def issued_def Let_def io_ReadAll_def
        split: prod.splits do_result.splits option.splits sum.splits if_splits dest!: AwaitTx_sent_pair)

lemma PersistEntities_headers:
  "\<forall>req\<in>set (issued w (snd (PersistEntities L s payloads w))).
     if Method req = POST then headers_are req (Some ''application/json'') (Some ''application/json'')
     else Header req = []"
  by (auto simp: PersistEntities_def NewRequest_def Header_Set_def Header_Get_def headers_are_def
        client_Do_def issued_def Let_def io_ReadAll_def
        split: prod.splits do_result.splits option.splits sum.splits if_splits dest!: AwaitTx_sent_pair)

lemma GetEntity_headers:
  "\<forall>req\<in>set (issued w (snd (GetEntity L s xtId w))).
     headers_are req (Some ''application/edn'') None"
  by (auto simp: GetEntity_def NewRequest_def Header_Set_def Header_Get_def headers_are_def Query_Add_def
        client_Do_def issued_def Let_def io_ReadAll_def
        split: prod.splits do_result.splits option.splits sum.splits)

lemma GetEntityHistory_headers:
  "\<forall>req\<in>set (issued w (snd (GetEntityHistory L s eid sortOrder withDocs w))).
     headers_are req (Some ''application/edn'') None"
  by (auto simp: GetEntityHistory_def NewRequest_def Header_Set_def Header_Get_def headers_are_def Query_Add_def
        client_Do_def issued_def Let_def io_ReadAll_def
        split: prod.splits do_result.splits option.splits sum.splits)

lemma queryRequest_headers:
  "\<forall>req\<in>set (issued w (snd (queryRequest L s q enc w))).
     headers_are req (Some enc) (Some ''application/edn'')"
  by (auto simp: queryRequest_def NewRequest_def Header_Set_def Header_Get_def headers_are_def
        client_Do_def issued_def Let_def io_ReadAll_def
        split: prod.splits do_result.splits option.splits sum.splits)

lemma Query_headers:
  "\<forall>req\<in>set (issued w (snd (Query L s q w))).
     headers_are req (Some ''application/edn'') (Some ''application/edn'')"
  unfolding Query_world by (rule queryRequest_headers)

lemma QueryRaw_headers:
  "\<forall>req\<in>set (issued w (snd (QueryRaw L s q w))).
     headers_are req (Some ''application/edn'') (Some ''application/edn'')"
  unfolding QueryRaw_def by (rule queryRequest_headers)

lemma QueryAsJson_headers:
  "\<forall>req\<in>set (issued w (snd (QueryAsJson L s q w))).
     headers_are req (Some ''application/json'') (Some ''application/edn'')"
  unfolding QueryAsJson_world by (rule queryRequest_headers)

lemma QueryRawAsJson_headers:
  "\<forall>req\<in>set (issued w (snd (QueryRawAsJson L s q w))).
     headers_are req (Some ''application/json'') (Some ''application/edn'')"
  unfolding QueryRawAsJson_def by (rule queryRequest_headers)

subsection \<open>Submissions the store accepts\<close>

lemma SubmitPutTx_accepted:
  assumes "buildTrxPutEdn L trxs = (payload, None)"
    and "url_Parse L (address s @ ''/_xtdb/submit-tx'') = None"
    and "reply w (submit_request s ''application/edn'' payload) = DoResp resp"
    and "StatusCode resp = 202"
  shows "fst (SubmitPutTx L s trxs w) = (Some (fst (edn_Decode_TxResponse L (Body resp))), None)"
    and "failures_logged L s Warn (edn_Decode_TxResponse L (Body resp))
           (on_wire w (submit_request s ''application/edn'' payload)) (snd (SubmitPutTx L s trxs w))"
proof -
  let ?req = "submit_request s ''application/edn'' payload"
  let ?dec = "edn_Decode_TxResponse L (Body resp)"
  have req: "Header_Set ''accept'' ''application/edn'' (Header_Set ''content-type'' ''application/edn''
      \<lparr>Method = POST, URL = address s @ ''/_xtdb/submit-tx'', Header = [], RawQuery = [],
        ReqBody = Some payload\<rparr>) = ?req"
    by (simp add: Header_Set_def submit_request_def)
  have do: "client_Do ?req w = (DoResp resp, on_wire w ?req)"
    using assms(3) by (simp add: client_Do_def reply_def on_wire_def)
  show "fst (SubmitPutTx L s trxs w) = (Some (fst ?dec), None)"
    using assms(1,2,4) do
    by (simp add: SubmitPutTx_def NewRequest_def req Let_def split: prod.splits)
  show "failures_logged L s Warn ?dec (on_wire w ?req) (snd (SubmitPutTx L s trxs w))"
    using assms(1,2,4) do
    by (auto simp: SubmitPutTx_def NewRequest_def req Let_def failures_logged_def
        split: prod.splits option.splits dest: AwaitTx_logs_pair AwaitTx_log_line_pair)
qed

lemma SubmitEvictTx_accepted:
  assumes "xtIDs \<noteq> []"
    and "buildTrxEvictEdn L xtIDs = (payload, None)"
    and "url_Parse L (address s @ ''/_xtdb/submit-tx'') = None"
    and "reply w (submit_request s ''application/edn'' payload) = DoResp resp"
    and "StatusCode resp = 202"
  shows "fst (SubmitEvictTx L s xtIDs w) = (Some (fst (edn_Decode_TxResponse L (Body resp))), None)"
    and "failures_logged L s Info (edn_Decode_TxResponse L (Body resp))
           (on_wire w (submit_request s ''application/edn'' payload))
           (snd (SubmitEvictTx L s xtIDs w))"
proof -
  let ?req = "submit_request s ''application/edn'' payload"
  let ?dec = "edn_Decode_TxResponse L (Body resp)"
  have req: "Header_Set ''accept'' ''application/edn'' (Header_Set ''content-type'' ''application/edn''
      \<lparr>Method = POST, URL = address s @ ''/_xtdb/submit-tx'', Header = [], RawQuery = [],
        ReqBody = Some payload\<rparr>) = ?req"
    by (simp add: Header_Set_def submit_request_def)
  have do: "client_Do ?req w = (DoResp resp, on_wire w ?req)"
    using assms(4) by (simp add: client_Do_def reply_def on_wire_def)
  show "fst (SubmitEvictTx L s xtIDs w) = (Some (fst ?dec), None)"
    using assms(1,2,3,5) do
    by (simp add: SubmitEvictTx_def NewRequest_def req Let_def split: prod.splits)
  show "failures_logged L s Info ?dec (on_wire w ?req) (snd (SubmitEvictTx L s xtIDs w))"
    using assms(1,2,3,5) do
    by (auto simp: SubmitEvictTx_def NewRequest_def req Let_def failures_logged_def
        split: prod.splits option.splits dest: AwaitTx_logs_pair AwaitTx_log_line_pair)
qed

lemma PersistEntities_accepted:
  assumes "json_Marshal_tx_ops L payloads = Inr payload"
    and "url_Parse L (address s @ ''/_xtdb/submit-tx'') = None"
    and "reply w (submit_request s ''application/json'' payload) = DoResp resp"
    and "StatusCode resp = 202"
  shows "fst (PersistEntities L s payloads w) = (TxID (fst (json_Decode_TxResponse L (Body resp))), None)"
    and "failures_logged L s Warn (json_Decode_TxResponse L (Body resp))
           (on_wire w (submit_request s ''application/json'' payload))
           (snd (PersistEntities L s payloads w))"
proof -
  let ?req = "submit_request s ''application/json'' payload"
  let ?dec = "json_Decode_TxResponse L (Body resp)"
  have req: "Header_Set ''accept'' ''application/json'' (Header_Set ''content-type'' ''application/json''
      \<lparr>Method = POST, URL = address s @ ''/_xtdb/submit-tx'', Header = [], RawQuery = [],
        ReqBody = Some payload\<rparr>) = ?req"
    by (simp add: Header_Set_def submit_request_def)
  have do: "client_Do ?req w = (DoResp resp, on_wire w ?req)"
    using assms(3) by (simp add: client_Do_def reply_def on_wire_def)
  show "fst (PersistEntities L s payloads w) = (TxID (fst ?dec), None)"
    using assms(1,2,4) do
    by (simp add: PersistEntities_def buildPersistPayload_def NewRequest_def req Let_def split: prod.splits)
  show "failures_logged L s Warn ?dec (on_wire w ?req) (snd (PersistEntities L s payloads w))"
    using assms(1,2,4) do
    by (auto simp: PersistEntities_def buildPersistPayload_def NewRequest_def req Let_def failures_logged_def
        split: prod.splits option.splits dest: AwaitTx_logs_pair AwaitTx_log_line_pair)
qed

subsection \<open>The example library at work\<close>

lemma example_url_ok [simp]:
  "url_Parse example_lib (address example_store @ ''/_xtdb/submit-tx'') = None"
  "url_Parse example_lib (address example_store @ ''/_xtdb/entity'') = None"
  "url_Parse example_lib (address example_store @ ''/_xtdb/query'') = None"
  by (simp_all add: example_lib_def example_store_def)

lemma example_await_url_ok:
  "url_Parse example_lib (address example_store @ ''/_xtdb/await-tx?tx-id='' @ show_int 7 @ ''&timeout=5000'') = None"
  by (simp add: example_lib_def example_store_def show_int_def show_nat.simps digit_def)

lemma example_decoders [simp]:
  "edn_Decode_TxResponse example_lib = decode_receipt"
  "json_Decode_TxResponse example_lib = decode_receipt"
  "fmt_Sprintf0 example_lib = (\<lambda>f. f)"
  by (simp_all add: example_lib_def)

lemma example_put_payload:
  "buildTrxPutEdn example_lib [''{:xt/id 1}''] = (''{:tx-ops [[:xtdb.api/put {:xt/id 1}]]}'', None)"
  by (simp add: buildTrxPutEdn_def example_lib_def)

lemma example_persist_payload:
  "json_Marshal_tx_ops example_lib [''{}''] = Inr ''{tx-ops: [{}]}''"
  by (simp add: example_lib_def)

lemma example_receipt:
  "decode_receipt \<lparr>data = ''{:xtdb.api/tx-id 7'', read_err = None\<rparr> =
     (\<lparr>TxID = 7, TxTime = ''0001-01-01T00:00:00Z''\<rparr>, Some (GoError ''unexpected EOF''))"
  by (simp add: decode_receipt_def)

lemma example_await_fails:
  "fst (AwaitTx example_lib example_store 7 (on_wire (replying r1 (status_reply 500 ''timeout'')) req)) =
     Some (GoError ''failed awaiting transaction 7, code=500, response=timeout'')"
  by (simp add: AwaitTx_def http_Get_def NewRequest_def client_Do_def on_wire_def replying_def
      status_reply_def example_lib_def example_store_def show_int_def show_nat.simps digit_def
      io_ReadAll_def)

lemma never_ok_refusing: "never_ok refusing_world"
  by (simp add: never_ok_def refusing_world_def)

subsection \<open>Sync: the caller\<close>

lemma release_eq:
  "release L st =
     st\<lparr>returned := (if returned st = None then Some (caller_return L (response st), now st)
                      else returned st)\<rparr>"
  by (simp add: release_def)

lemma elapse_eq:
  "elapse L T d st =
     st\<lparr>now := now st + d,
        returned := (if returned st = None \<and> T \<le> now st + d
                     then Some (caller_return L (response st), max (now st) T)
                     else returned st)\<rparr>"
  by (simp add: elapse_def release_def)

lemma returned_release: "returned st = Some r \<Longrightarrow> returned (release L st) = Some r"
  by (simp add: release_def)

lemma returned_elapse: "returned st = Some r \<Longrightarrow> returned (elapse L T d st) = Some r"
  by (simp add: elapse_def)

lemma returned_loop_body:
  "returned st = Some r \<Longrightarrow> returned (loop_body L lat url T st) = Some r"
  by (simp add: loop_body_def Let_def returned_elapse returned_release
      split: prod.splits do_result.splits)

lemma returned_goroutine:
  "returned st = Some r \<Longrightarrow> returned (goroutine n L lat url T st) = Some r"
  by (induction n arbitrary: st) (simp_all add: returned_loop_body)

lemma exited_release [simp]: "exited (release L st) = exited st"
  by (simp add: release_def)

lemma exited_elapse [simp]: "exited (elapse L T d st) = exited st"
  by (simp add: elapse_def)

lemma env_release [simp]: "env (release L st) = env st"
  by (simp add: release_def)

lemma env_elapse [simp]: "env (elapse L T d st) = env st"
  by (simp add: elapse_def)

lemma exited_goroutine: "exited st \<Longrightarrow> goroutine n L lat url T st = st"
  by (cases n) simp_all

text \<open>
  A poll that answers 200 before the deadline releases the caller at once, with no error
  and whatever the log held, and ends the goroutine.
\<close>

lemma loop_body_success:
  assumes "returned st = None" and "\<not> ctx_Done T st"
    and "http_Get L url
           (log_line Debug (''attempt='' @ show_int (i st) @ '' - trying sync to xtdb at '' @ url) (env st))
         = (DoResp resp, w1)"
    and "StatusCode resp = 200"
    and "now st + int (lat (i st)) < T"
  shows "returned (loop_body L lat url T st) = Some (None, now st + int (lat (i st)))"
    and "exited (loop_body L lat url T st)"
    and "response (loop_body L lat url T st) = []"
  using assms by (simp_all add: loop_body_def Let_def elapse_eq release_eq caller_return_def)

text \<open>
  The caller is always released: a pass that leaves it blocked takes at least the two
  seconds of the back-off, so the deadline is met after \<open>T div 2s + 1\<close> passes at the
  latest.
\<close>

lemma loop_body_progress:
  assumes "blocked T st" and "returned (loop_body L lat url T st) = None"
  shows "blocked T (loop_body L lat url T st) \<and> now st + 2000000000 \<le> now (loop_body L lat url T st)"
proof -
  from assms(2) have none: "returned st = None"
    using returned_loop_body [of st _ L lat url T] by (cases "returned st") auto
  with assms(1) have nd: "\<not> ctx_Done T st" and ne: "\<not> exited st" "\<not> cancelled st"
    by (simp_all add: blocked_def ctx_Done_def)
  let ?w0 = "log_line Debug (''attempt='' @ show_int (i st) @ '' - trying sync to xtdb at '' @ url) (env st)"
  obtain res w1 where g: "http_Get L url ?w0 = (res, w1)" by (cases "http_Get L url ?w0")
  show ?thesis
  proof (cases res)
    case (DoErr e)
    with nd g ne none assms(2) show ?thesis
      by (auto simp: loop_body_def Let_def blocked_def elapse_eq split: if_splits)
  next
    case (DoResp r)
    with nd g ne none assms(2) show ?thesis
      by (auto simp: loop_body_def Let_def blocked_def elapse_eq release_eq split: prod.splits if_splits)
  qed
qed

lemma goroutine_progress:
  "blocked T st \<Longrightarrow> returned (goroutine n L lat url T st) = None \<Longrightarrow>
   blocked T (goroutine n L lat url T st)
   \<and> now st + 2000000000 * int n \<le> now (goroutine n L lat url T st)"
proof (induction n arbitrary: st)
  case 0
  then show ?case by simp
next
  case (Suc n)
  from Suc.prems have none: "returned st = None"
    using returned_goroutine [of st _ "Suc n" L lat url T] by (cases "returned st") auto
  with Suc.prems(1) have ne: "\<not> exited st" by (simp add: blocked_def)
  with Suc.prems(2) have r: "returned (goroutine n L lat url T (loop_body L lat url T st)) = None"
    by simp
  then have r1: "returned (loop_body L lat url T st) = None"
    using returned_goroutine [of "loop_body L lat url T st" _ n L lat url T]
    by (cases "returned (loop_body L lat url T st)") auto
  from loop_body_progress [OF Suc.prems(1) r1]
  have b: "blocked T (loop_body L lat url T st)"
    and p: "now st + 2000000000 \<le> now (loop_body L lat url T st)" by simp_all
  from Suc.IH [OF b r] p ne show ?case by (simp add: algebra_simps)
qed

lemma Sync_caller_returns:
  "returned (Sync (nat (T div 2000000000) + 1) L lat s T w) \<noteq> None"
proof
  let ?n = "nat (T div 2000000000) + 1"
  let ?st0 = "elapse L T 0 \<lparr>env = w, i = 1, now = 0, response = [], cancelled = False,
      exited = False, returned = None\<rparr>"
  let ?url = "address s @ ''/_xtdb/sync?timeout='' @ show_int (Milliseconds T)"
  assume "returned (Sync ?n L lat s T w) = None"
  then have r: "returned (goroutine ?n L lat ?url T ?st0) = None"
    by (simp add: Sync_def Let_def)
  have b0: "blocked T ?st0" by (simp add: blocked_def elapse_eq)
  have n0: "now ?st0 = 0" by (simp add: elapse_eq)
  from goroutine_progress [OF b0 r] r n0
  have lt: "2000000000 * int ?n < T"
    by (simp add: blocked_def)
  define q where "q = T div 2000000000"
  define r where "r = T mod 2000000000"
  define k where "k = int ?n"
  have "r < 2000000000" by (simp add: r_def)
  moreover have "T = 2000000000 * q + r" by (simp add: q_def r_def)
  moreover have "q + 1 \<le> k" by (simp add: q_def k_def)
  moreover have "2000000000 * k < T" using lt by (simp only: k_def)
  ultimately show False by linarith
qed

subsection \<open>Sync against a store that never reports success\<close>

lemma http_Get_never_ok:
  "never_ok w \<Longrightarrow> http_Get L url w = (DoResp r, w') \<Longrightarrow> StatusCode r \<noteq> 200"
  by (auto simp: never_ok_def http_Get_def client_Do_def split: sum.splits dest!: spec [where x = "length (sent w)"])
     (metis do_result.simps(6))

lemma never_ok_http_Get: "never_ok w \<Longrightarrow> never_ok (snd (http_Get L url w))"
  by (simp add: never_ok_def http_Get_def client_Do_def split: sum.splits)

lemma never_ok_log_line [simp]: "never_ok (log_line l m w) = never_ok w"
  by (simp add: never_ok_def log_line_def)

lemma loop_body_never_exits:
  assumes "never_ok (env st)" and "\<not> exited st"
  shows "\<not> exited (loop_body L lat url T st) \<and> never_ok (env (loop_body L lat url T st))"
proof (cases "ctx_Done T st")
  case True
  with assms show ?thesis by (simp add: loop_body_def)
next
  case False
  let ?w0 = "log_line Debug (''attempt='' @ show_int (i st) @ '' - trying sync to xtdb at '' @ url) (env st)"
  obtain res w1 where g: "http_Get L url ?w0 = (res, w1)" by (cases "http_Get L url ?w0")
  have n0: "never_ok ?w0" using assms(1) by simp
  have n1: "never_ok w1" using never_ok_http_Get [OF n0, of L url] g by simp
  show ?thesis
  proof (cases res)
    case (DoErr e)
    with False g n1 assms(2) show ?thesis by (simp add: loop_body_def Let_def)
  next
    case (DoResp r)
    with http_Get_never_ok [OF n0] g have "StatusCode r \<noteq> 200" by simp
    with DoResp False g n1 assms(2) show ?thesis
      by (simp add: loop_body_def Let_def split: prod.splits)
  qed
qed

lemma goroutine_never_exits:
  "never_ok (env st) \<Longrightarrow> \<not> exited st \<Longrightarrow> \<not> exited (goroutine n L lat url T st)"
proof (induction n arbitrary: st)
  case 0
  then show ?case by simp
next
  case (Suc n)
  from loop_body_never_exits [OF Suc.prems, of L lat url T]
  have "\<not> exited (loop_body L lat url T st)" "never_ok (env (loop_body L lat url T st))" by simp_all
  from Suc.IH [OF this(2) this(1)] Suc.prems(2) show ?case by simp
qed

lemma Sync_never_exits:
  "never_ok w \<Longrightarrow> \<not> exited (Sync n L lat s T w)"
  by (simp add: Sync_def Let_def goroutine_never_exits)

text \<open>The caller is released at the deadline, not before.\<close>

lemma polling_loop_body:
  assumes "polling T st"
  shows "polling T (loop_body L lat url T st)"
proof (cases "ctx_Done T st")
  case True
  with assms show ?thesis by (simp add: loop_body_def polling_def)
next
  case False
  let ?w0 = "log_line Debug (''attempt='' @ show_int (i st) @ '' - trying sync to xtdb at '' @ url) (env st)"
  obtain res w1 where g: "http_Get L url ?w0 = (res, w1)" by (cases "http_Get L url ?w0")
  have n0: "never_ok ?w0" using assms by (simp add: polling_def)
  have n1: "never_ok w1" using never_ok_http_Get [OF n0, of L url] g by simp
  from False have lt: "now st < T" "\<not> cancelled st" by (simp_all add: ctx_Done_def)
  show ?thesis
  proof (cases res)
    case (DoErr e)
    with False g n1 lt assms show ?thesis
      by (auto simp: loop_body_def Let_def polling_def elapse_eq)
  next
    case (DoResp r)
    with http_Get_never_ok [OF n0] g have "StatusCode r \<noteq> 200" by simp
    with DoResp False g n1 lt assms show ?thesis
      by (auto simp: loop_body_def Let_def polling_def elapse_eq split: prod.splits)
  qed
qed

lemma polling_goroutine:
  "polling T st \<Longrightarrow> polling T (goroutine n L lat url T st)"
  by (induction n arbitrary: st) (simp_all add: polling_loop_body)

lemma polling_start:
  "never_ok w \<Longrightarrow>
   polling T (elapse L T 0 \<lparr>env = w, i = 1, now = 0, response = [], cancelled = False, exited = False,
            returned = None\<rparr>)"
  by (auto simp: polling_def elapse_eq)

lemma Sync_returns_at_deadline:
  assumes "never_ok w" and "returned (Sync n L lat s T w) = Some (r, t)"
  shows "t = max 0 T"
proof -
  have "polling T (Sync n L lat s T w)"
    unfolding Sync_def Let_def by (intro polling_goroutine polling_start assms(1))
  with assms(2) show ?thesis by (simp add: polling_def)
qed

text \<open>
  It returns without an error only when the deadline came before the first attempt was
  recorded.
\<close>

lemma recording_loop_body:
  assumes "recording lat T st"
  shows "recording lat T (loop_body L lat url T st)"
proof -
  from assms have p: "polling T st" by (simp add: recording_def)
  note p' = polling_loop_body [OF p, of L lat url]
  show ?thesis
  proof (cases "ctx_Done T st")
    case True
    with assms p' show ?thesis
      by (auto simp: recording_def loop_body_def split: if_splits)
  next
    case False
    let ?w0 = "log_line Debug (''attempt='' @ show_int (i st) @ '' - trying sync to xtdb at '' @ url) (env st)"
    obtain res w1 where g: "http_Get L url ?w0 = (res, w1)" by (cases "http_Get L url ?w0")
    have n0: "never_ok ?w0" using p by (simp add: polling_def)
    show ?thesis
    proof (cases res)
      case (DoErr e)
      with False g assms p' show ?thesis
        unfolding recording_def
        by (auto simp: loop_body_def Let_def elapse_eq caller_return_def split: if_splits)
    next
      case (DoResp r)
      with http_Get_never_ok [OF n0] g have "StatusCode r \<noteq> 200" by simp
      with DoResp False g assms p' show ?thesis
        unfolding recording_def
        by (auto simp: loop_body_def Let_def elapse_eq caller_return_def split: prod.splits if_splits)
    qed
  qed
qed

lemma recording_goroutine:
  "recording lat T st \<Longrightarrow> recording lat T (goroutine n L lat url T st)"
  by (induction n arbitrary: st) (simp_all add: recording_loop_body)

lemma Sync_nil_only_before_first_record:
  assumes "never_ok w" and "returned (Sync n L lat s T w) = Some (None, t)"
  shows "T \<le> int (lat 1)"
proof -
  have "recording lat T (elapse L T 0 \<lparr>env = w, i = 1, now = 0, response = [], cancelled = False,
      exited = False, returned = None\<rparr>)"
    using polling_start [OF assms(1), of T L]
    by (auto simp: recording_def elapse_eq)
  then have "recording lat T (Sync n L lat s T w)"
    unfolding Sync_def Let_def by (rule recording_goroutine)
  with assms(2) show ?thesis by (simp add: recording_def)
qed

text \<open>
  The error it returns joins exactly the lines recorded before it was released.
\<close>

lemma response_grows:
  assumes "polling T st"
  shows "\<exists>more. response (loop_body L lat url T st) = response st @ more"
proof (cases "ctx_Done T st")
  case True
  then show ?thesis by (simp add: loop_body_def)
next
  case False
  let ?w0 = "log_line Debug (''attempt='' @ show_int (i st) @ '' - trying sync to xtdb at '' @ url) (env st)"
  obtain res w1 where g: "http_Get L url ?w0 = (res, w1)" by (cases "http_Get L url ?w0")
  have n0: "never_ok ?w0" using assms(1) by (simp add: polling_def)
  show ?thesis
  proof (cases res)
    case (DoErr e)
    with False g show ?thesis
      by (simp add: loop_body_def Let_def elapse_eq)
  next
    case (DoResp r)
    with http_Get_never_ok [OF n0] g have "StatusCode r \<noteq> 200" by simp
    with DoResp False g show ?thesis
      by (simp add: loop_body_def Let_def elapse_eq split: prod.splits)
  qed
qed

lemma listed_loop_body:
  assumes "polling T st" and "listed L st"
  shows "listed L (loop_body L lat url T st)"
proof (cases "returned st")
  case (Some rt)
  obtain more where m: "response (loop_body L lat url T st) = response st @ more"
    using response_grows [OF assms(1)] by blast
  from Some have "returned (loop_body L lat url T st) = Some rt" by (rule returned_loop_body)
  with Some assms(2) m show ?thesis
    by (fastforce simp: listed_def)
next
  case None
  with assms(1) have nd: "\<not> ctx_Done T st" by (simp add: polling_def ctx_Done_def)
  let ?w0 = "log_line Debug (''attempt='' @ show_int (i st) @ '' - trying sync to xtdb at '' @ url) (env st)"
  obtain res w1 where g: "http_Get L url ?w0 = (res, w1)" by (cases "http_Get L url ?w0")
  have n0: "never_ok ?w0" using assms(1) by (simp add: polling_def)
  have k0: "\<And>xs x. \<exists>seen later. xs @ [x] = seen @ later \<and> caller_return L xs = caller_return L seen"
    by blast
  have k1: "\<And>xs. \<exists>seen later. xs = seen @ later \<and> caller_return L xs = caller_return L seen"
    by (metis append_Nil2)
  show ?thesis
  proof (cases res)
    case (DoErr e)
    with nd g None k0 k1 show ?thesis
      by (auto simp: loop_body_def Let_def listed_def elapse_eq)
  next
    case (DoResp r)
    with http_Get_never_ok [OF n0] g have "StatusCode r \<noteq> 200" by simp
    with DoResp nd g None k0 k1 show ?thesis
      by (auto simp: loop_body_def Let_def listed_def elapse_eq split: prod.splits)
  qed
qed

lemma listed_goroutine:
  "polling T st \<Longrightarrow> listed L st \<Longrightarrow> listed L (goroutine n L lat url T st)"
  by (induction n arbitrary: st) (simp_all add: listed_loop_body polling_loop_body)

lemma Sync_error_lists_recorded:
  assumes "never_ok w" and "returned (Sync n L lat s T w) = Some (r, t)"
  shows "\<exists>seen later. response (Sync n L lat s T w) = seen @ later \<and> r = caller_return L seen"
proof -
  let ?st0 = "elapse L T 0 \<lparr>env = w, i = 1, now = 0, response = [], cancelled = False,
      exited = False, returned = None\<rparr>"
  have "listed L ?st0" by (auto simp: listed_def elapse_eq)
  from listed_goroutine [OF polling_start [OF assms(1)] this]
  have "listed L (Sync n L lat s T w)" by (simp add: Sync_def Let_def)
  with assms(2) show ?thesis by (simp add: listed_def)
qed

section \<open>Properties\<close>

text \<open>
  C1. Sync with a timeout during which every poll fails is to return, once the timeout has
  elapsed, an error that lists the recorded failures. Here the timeout is one second and
  every attempt to reach the store fails after three seconds: the caller of Sync is
  released at the deadline, while the first attempt is still in flight, finds the log
  empty and returns nil, whatever the number of passes the goroutine goes on to make.
\<close>

theorem Sync_nil_at_deadline:
  "returned (Sync (Suc n) example_lib (\<lambda>_. 3000000000) example_store 1000000000 refusing_world)
     = Some (None, 1000000000)"
proof -
  let ?url = "address example_store @ ''/_xtdb/sync?timeout='' @ show_int (Milliseconds 1000000000)"
  let ?st0 = "elapse example_lib 1000000000 0
           \<lparr>env = refusing_world, i = 1, now = 0, response = [], cancelled = False, exited = False,
            returned = None\<rparr>"
  have "returned (loop_body example_lib (\<lambda>_. 3000000000) ?url 1000000000 ?st0) = Some (None, 1000000000)"
    by (simp add: loop_body_def elapse_def release_def ctx_Done_def Let_def http_Get_def NewRequest_def
        client_Do_def log_line_def refusing_world_def caller_return_def split: sum.splits)
  from returned_goroutine [OF this, of n]
  show ?thesis by (simp add: Sync_def Let_def elapse_def)
qed

text \<open>
  C2. When the body of the query response decodes to rows of more than one column each,
  Query and QueryAsJson return the serialization, in their own encoding, of a list that
  has one element per row, the \<open>k\<close>-th being the first column of the \<open>k\<close>-th row.
\<close>

theorem Query_returns_first_columns:
  "(queryRequest L s q ''application/edn'' w = ((Some b, None), w1) \<longrightarrow>
    edn_Unmarshal_rows L b = Inr p \<longrightarrow> (\<forall>row\<in>set p. 1 < length row) \<longrightarrow>
      (\<exists>r. length r = length p \<and> (\<forall>k<length p. r ! k = (p ! k) ! 0)
         \<and> fst (Query L s q w) =
             Returns (case edn_Marshal_rows L r of
                        Inl err \<Rightarrow> (None, Some err) | Inr out \<Rightarrow> (Some out, None))))
   \<and> (queryRequest L s q ''application/json'' w = ((Some b', None), w1') \<longrightarrow>
    json_Unmarshal_rows L b' = Inr p' \<longrightarrow> (\<forall>row\<in>set p'. 1 < length row) \<longrightarrow>
      (\<exists>r. length r = length p' \<and> (\<forall>k<length p'. r ! k = (p' ! k) ! 0)
         \<and> fst (QueryAsJson L s q w) =
             Returns (case json_Marshal_rows L r of
                        Inl err \<Rightarrow> (None, Some err) | Inr out \<Rightarrow> (Some out, None))))"
proof -
  have ne: "\<And>rows::'a list list. \<forall>row\<in>set rows. 1 < length row \<Longrightarrow> \<forall>row\<in>set rows. row \<noteq> []"
    by auto
  show ?thesis
  proof (intro conjI impI)
    assume q: "queryRequest L s q ''application/edn'' w = ((Some b, None), w1)"
      and u: "edn_Unmarshal_rows L b = Inr p" and m: "\<forall>row\<in>set p. 1 < length row"
    let ?r = "map (\<lambda>row. row ! 0) p"
    have "fst (Query L s q w) =
            Returns (case edn_Marshal_rows L ?r of
                        Inl err \<Rightarrow> (None, Some err) | Inr out \<Rightarrow> (Some out, None))"
      using q u first_columns_nonempty [OF ne [OF m], of "[]"]
      by (simp add: Query_def split: sum.splits)
    then show "\<exists>r. length r = length p \<and> (\<forall>k<length p. r ! k = (p ! k) ! 0)
         \<and> fst (Query L s q w) =
             Returns (case edn_Marshal_rows L r of
                        Inl err \<Rightarrow> (None, Some err) | Inr out \<Rightarrow> (Some out, None))"
      by (intro exI [of _ ?r]) simp
  next
    assume q: "queryRequest L s q ''application/json'' w = ((Some b', None), w1')"
      and u: "json_Unmarshal_rows L b' = Inr p'" and m: "\<forall>row\<in>set p'. 1 < length row"
    let ?r = "map (\<lambda>row. row ! 0) p'"
    have "fst (QueryAsJson L s q w) =
            Returns (case json_Marshal_rows L ?r of
                        Inl err \<Rightarrow> (None, Some err) | Inr out \<Rightarrow> (Some out, None))"
      using q u first_columns_nonempty [OF ne [OF m], of "[]"]
      by (simp add: QueryAsJson_def split: sum.splits)
    then show "\<exists>r. length r = length p' \<and> (\<forall>k<length p'. r ! k = (p' ! k) ! 0)
         \<and> fst (QueryAsJson L s q w) =
             Returns (case json_Marshal_rows L r of
                        Inl err \<Rightarrow> (None, Some err) | Inr out \<Rightarrow> (Some out, None))"
      by (intro exI [of _ ?r]) simp
  qed
qed

theorem Query_returns_first_columns_witness:
  "fst (Query example_lib example_store ''{:query q}''
          (replying (status_reply 200 ''[[a b] [c d]]'') (status_reply 200 ''''))) =
     Returns (Some ''[a c]'', None)
   \<and> fst (QueryAsJson example_lib example_store ''{:query q}''
          (replying (status_reply 200 ''[[a b] [c d]]'') (status_reply 200 ''''))) =
     Returns (Some ''[a,c]'', None)"
proof -
  let ?w = "replying (status_reply 200 ''[[a b] [c d]]'') (status_reply 200 '''')"
  let ?p = "[[''a'', ''b''], [''c'', ''d'']]"
  have q1: "queryRequest example_lib example_store ''{:query q}'' ''application/edn'' ?w =
      ((Some ''[[a b] [c d]]'', None), on_wire ?w (query_request example_store ''{:query q}'' ''application/edn''))"
    using queryRequest_ok [of example_lib example_store ?w "''{:query q}''" "''application/edn''"]
    by (simp add: status_reply_def)
  have q2: "queryRequest example_lib example_store ''{:query q}'' ''application/json'' ?w =
      ((Some ''[[a b] [c d]]'', None), on_wire ?w (query_request example_store ''{:query q}'' ''application/json''))"
    using queryRequest_ok [of example_lib example_store ?w "''{:query q}''" "''application/json''"]
    by (simp add: status_reply_def)
  have u1: "edn_Unmarshal_rows example_lib ''[[a b] [c d]]'' = Inr ?p"
    and u2: "json_Unmarshal_rows example_lib ''[[a b] [c d]]'' = Inr ?p"
    by (simp_all add: example_lib_def decode_rows_def)
  have m: "\<forall>row\<in>set ?p. 1 < length row" by simp
  note inst = Query_returns_first_columns [where L = example_lib and s = example_store
      and q = "''{:query q}''" and w = ?w and b = "''[[a b] [c d]]''" and b' = "''[[a b] [c d]]''"
      and p = ?p and p' = ?p
      and ?w1.0 = "on_wire ?w (query_request example_store ''{:query q}'' ''application/edn'')"
      and w1' = "on_wire ?w (query_request example_store ''{:query q}'' ''application/json'')"]
  from inst [THEN conjunct1, THEN mp, OF q1, THEN mp, OF u1, THEN mp, OF m]
  obtain r where r: "length r = length ?p" "\<forall>k<length ?p. r ! k = ?p ! k ! 0"
    and a: "fst (Query example_lib example_store ''{:query q}'' ?w) =
             Returns (case edn_Marshal_rows example_lib r of
                        Inl err \<Rightarrow> (None, Some err) | Inr out \<Rightarrow> (Some out, None))"
    by blast
  from inst [THEN conjunct2, THEN mp, OF q2, THEN mp, OF u2, THEN mp, OF m]
  obtain r' where r': "length r' = length ?p" "\<forall>k<length ?p. r' ! k = ?p ! k ! 0"
    and b: "fst (QueryAsJson example_lib example_store ''{:query q}'' ?w) =
             Returns (case json_Marshal_rows example_lib r' of
                        Inl err \<Rightarrow> (None, Some err) | Inr out \<Rightarrow> (Some out, None))"
    by blast
  have "r = [''a'', ''c'']" using length_two [of r] r by simp
  moreover have "r' = [''a'', ''c'']" using length_two [of r'] r' by simp
  ultimately show ?thesis using a b by (simp add: example_lib_def)
qed

text \<open>
  C3, as the source has it. The requests of SubmitPutTx and SubmitEvictTx carry accept
  and content-type application/edn, those of PersistEntities application/json for both.
  A query always carries content-type application/edn, its body being an EDN query, and
  asks in accept for the encoding of the result: the JSON variants send EDN and accept
  JSON. GetEntity and GetEntityHistory set accept application/edn and no content-type.
  The GET that AwaitTx issues, also on behalf of the three submissions, carries no header.
\<close>

theorem request_headers_by_operation:
  "(\<forall>req\<in>set (issued w (snd (SubmitPutTx L s trxs w))).
      if Method req = POST
      then headers_are req (Some ''application/edn'') (Some ''application/edn'')
      else Header req = [])
   \<and> (\<forall>req\<in>set (issued w (snd (SubmitEvictTx L s xtIDs w))).
      if Method req = POST
      then headers_are req (Some ''application/edn'') (Some ''application/edn'')
      else Header req = [])
   \<and> (\<forall>req\<in>set (issued w (snd (PersistEntities L s payloads w))).
      if Method req = POST
      then headers_are req (Some ''application/json'') (Some ''application/json'')
      else Header req = [])
   \<and> (\<forall>req\<in>set (issued w (snd (GetEntity L s xtId w))).
      headers_are req (Some ''application/edn'') None)
   \<and> (\<forall>req\<in>set (issued w (snd (GetEntityHistory L s eid sortOrder withDocs w))).
      headers_are req (Some ''application/edn'') None)
   \<and> (\<forall>req\<in>set (issued w (snd (Query L s q w))).
      headers_are req (Some ''application/edn'') (Some ''application/edn''))
   \<and> (\<forall>req\<in>set (issued w (snd (QueryRaw L s q w))).
      headers_are req (Some ''application/edn'') (Some ''application/edn''))
   \<and> (\<forall>req\<in>set (issued w (snd (QueryAsJson L s q w))).
      headers_are req (Some ''application/json'') (Some ''application/edn''))
   \<and> (\<forall>req\<in>set (issued w (snd (QueryRawAsJson L s q w))).
      headers_are req (Some ''application/json'') (Some ''application/edn''))
   \<and> (\<forall>req\<in>set (issued w (snd (AwaitTx L s txID w))). Header req = [])"
  by (intro conjI SubmitPutTx_headers SubmitEvictTx_headers PersistEntities_headers
      GetEntity_headers GetEntityHistory_headers Query_headers QueryRaw_headers
      QueryAsJson_headers QueryRawAsJson_headers AwaitTx_no_headers)

theorem request_headers_by_operation_witness:
  "headers_are (submit_request example_store ''application/edn'' ''{:tx-ops [[:xtdb.api/put {:xt/id 1}]]}'')
     (Some ''application/edn'') (Some ''application/edn'')
   \<and> headers_are (submit_request example_store ''application/edn'' (fst (buildTrxEvictEdn example_lib [''e1''])))
     (Some ''application/edn'') (Some ''application/edn'')
   \<and> headers_are (submit_request example_store ''application/json'' ''{tx-ops: [{}]}'')
     (Some ''application/json'') (Some ''application/json'')
   \<and> headers_are (entity_request example_store ''e1'') (Some ''application/edn'') None
   \<and> headers_are (history_request example_store ''e1'' ''asc'' True) (Some ''application/edn'') None
   \<and> headers_are (query_request example_store ''{:query q}'' ''application/edn'')
     (Some ''application/edn'') (Some ''application/edn'')
   \<and> headers_are (query_request example_store ''{:query q}'' ''application/json'')
     (Some ''application/json'') (Some ''application/edn'')
   \<and> issued refusing_world (snd (AwaitTx example_lib example_store 7 refusing_world)) \<noteq> []
   \<and> Header (hd (issued refusing_world (snd (AwaitTx example_lib example_store 7 refusing_world)))) = []"
proof -
  let ?w = refusing_world
  note inst = request_headers_by_operation [where L = example_lib and s = example_store and w = ?w
      and trxs = "[''{:xt/id 1}'']" and xtIDs = "[''e1'']" and payloads = "[''{}'']"
      and xtId = "''e1''" and eid = "''e1''" and sortOrder = "''asc''" and withDocs = True
      and q = "''{:query q}''" and txID = 7]
  have m1: "submit_request example_store ''application/edn'' ''{:tx-ops [[:xtdb.api/put {:xt/id 1}]]}''
      \<in> set (issued ?w (snd (SubmitPutTx example_lib example_store [''{:xt/id 1}''] ?w)))"
    using SubmitPutTx_issued [OF example_put_payload example_url_ok(1), of ?w] by auto
  have m2: "submit_request example_store ''application/edn'' (fst (buildTrxEvictEdn example_lib [''e1'']))
      \<in> set (issued ?w (snd (SubmitEvictTx example_lib example_store [''e1''] ?w)))"
    using SubmitEvictTx_issued [of "[''e1'']" example_lib example_store ?w] by auto
  have m3: "submit_request example_store ''application/json'' ''{tx-ops: [{}]}''
      \<in> set (issued ?w (snd (PersistEntities example_lib example_store [''{}''] ?w)))"
    using PersistEntities_issued [OF example_persist_payload example_url_ok(1), of ?w] by auto
  have m4: "entity_request example_store ''e1''
      \<in> set (issued ?w (snd (GetEntity example_lib example_store ''e1'' ?w)))"
    by (simp add: GetEntity_issued)
  have m5: "history_request example_store ''e1'' ''asc'' True
      \<in> set (issued ?w (snd (GetEntityHistory example_lib example_store ''e1'' ''asc'' True ?w)))"
    by (simp add: GetEntityHistory_issued)
  have m6: "query_request example_store ''{:query q}'' ''application/edn''
      \<in> set (issued ?w (snd (Query example_lib example_store ''{:query q}'' ?w)))"
    by (simp add: Query_world queryRequest_issued)
  have m7: "query_request example_store ''{:query q}'' ''application/edn''
      \<in> set (issued ?w (snd (QueryRaw example_lib example_store ''{:query q}'' ?w)))"
    by (simp add: QueryRaw_def queryRequest_issued)
  have m8: "query_request example_store ''{:query q}'' ''application/json''
      \<in> set (issued ?w (snd (QueryAsJson example_lib example_store ''{:query q}'' ?w)))"
    by (simp add: QueryAsJson_world queryRequest_issued)
  have m9: "query_request example_store ''{:query q}'' ''application/json''
      \<in> set (issued ?w (snd (QueryRawAsJson example_lib example_store ''{:query q}'' ?w)))"
    by (simp add: QueryRawAsJson_def queryRequest_issued)
  have m10: "issued ?w (snd (AwaitTx example_lib example_store 7 ?w)) \<noteq> []"
    "hd (issued ?w (snd (AwaitTx example_lib example_store 7 ?w)))
      \<in> set (issued ?w (snd (AwaitTx example_lib example_store 7 ?w)))"
    by (simp_all add: AwaitTx_issued [OF example_await_url_ok])
  have p: "Method (submit_request example_store ''application/edn'' ''{:tx-ops [[:xtdb.api/put {:xt/id 1}]]}'') = POST"
    "Method (submit_request example_store ''application/edn'' (fst (buildTrxEvictEdn example_lib [''e1'']))) = POST"
    "Method (submit_request example_store ''application/json'' ''{tx-ops: [{}]}'') = POST"
    by (simp_all add: submit_request_def)
  from inst [THEN conjunct1, THEN bspec, OF m1] p(1)
  have c1: "headers_are (submit_request example_store ''application/edn'' ''{:tx-ops [[:xtdb.api/put {:xt/id 1}]]}'')
     (Some ''application/edn'') (Some ''application/edn'')" by simp
  from inst [THEN conjunct2, THEN conjunct1, THEN bspec, OF m2] p(2)
  have c2: "headers_are (submit_request example_store ''application/edn'' (fst (buildTrxEvictEdn example_lib [''e1''])))
     (Some ''application/edn'') (Some ''application/edn'')" by simp
  from inst [THEN conjunct2, THEN conjunct2, THEN conjunct1, THEN bspec, OF m3] p(3)
  have c3: "headers_are (submit_request example_store ''application/json'' ''{tx-ops: [{}]}'')
     (Some ''application/json'') (Some ''application/json'')" by simp
  note rest = inst [THEN conjunct2, THEN conjunct2, THEN conjunct2]
  note c4 = rest [THEN conjunct1, THEN bspec, OF m4]
  note c5 = rest [THEN conjunct2, THEN conjunct1, THEN bspec, OF m5]
  note c6 = rest [THEN conjunct2, THEN conjunct2, THEN conjunct1, THEN bspec, OF m6]
  note rest' = rest [THEN conjunct2, THEN conjunct2, THEN conjunct2]
  note c7 = rest' [THEN conjunct1, THEN bspec, OF m7]
  note c8 = rest' [THEN conjunct2, THEN conjunct1, THEN bspec, OF m8]
  note c9 = rest' [THEN conjunct2, THEN conjunct2, THEN conjunct1, THEN bspec, OF m9]
  note c10 = rest' [THEN conjunct2, THEN conjunct2, THEN conjunct2, THEN bspec, OF m10(2)]
  from c1 c2 c3 c4 c5 c6 c7 c8 c9 c10 m10(1) show ?thesis by simp
qed

text \<open>
  C3 as stated, that accept and content-type both name the one encoding of the call,
  fails for QueryAsJson: its request asks for JSON and declares an EDN body.
\<close>

theorem json_query_mixes_encodings:
  "issued refusing_world (snd (QueryAsJson example_lib example_store ''{:query q}'' refusing_world)) =
     [query_request example_store ''{:query q}'' ''application/json'']
   \<and> \<not> single_encoding (query_request example_store ''{:query q}'' ''application/json'')"
  by (simp add: QueryAsJson_world queryRequest_issued single_encoding_def headers_are_def
      Header_Get_def query_request_def)

text \<open>
  C4. A submission answered with 202 returns success: SubmitPutTx and SubmitEvictTx the
  receipt as decoding left it, PersistEntities its transaction id, all with a nil error,
  whether or not decoding the receipt failed and whether or not the await for a positive
  transaction id failed. Both failures are in the log at return.
\<close>

theorem accepted_submit_reports_success:
  "(buildTrxPutEdn L trxs = (payload, None) \<longrightarrow>
    url_Parse L (address s @ ''/_xtdb/submit-tx'') = None \<longrightarrow>
    reply w (submit_request s ''application/edn'' payload) = DoResp resp \<longrightarrow>
    StatusCode resp = 202 \<longrightarrow>
      fst (SubmitPutTx L s trxs w) = (Some (fst (edn_Decode_TxResponse L (Body resp))), None)
      \<and> failures_logged L s Warn (edn_Decode_TxResponse L (Body resp))
           (on_wire w (submit_request s ''application/edn'' payload)) (snd (SubmitPutTx L s trxs w)))
   \<and> (xtIDs \<noteq> [] \<longrightarrow> buildTrxEvictEdn L xtIDs = (payload', None) \<longrightarrow>
    url_Parse L (address s @ ''/_xtdb/submit-tx'') = None \<longrightarrow>
    reply w (submit_request s ''application/edn'' payload') = DoResp resp' \<longrightarrow>
    StatusCode resp' = 202 \<longrightarrow>
      fst (SubmitEvictTx L s xtIDs w) = (Some (fst (edn_Decode_TxResponse L (Body resp'))), None)
      \<and> failures_logged L s Info (edn_Decode_TxResponse L (Body resp'))
           (on_wire w (submit_request s ''application/edn'' payload')) (snd (SubmitEvictTx L s xtIDs w)))
   \<and> (json_Marshal_tx_ops L payloads = Inr payload'' \<longrightarrow>
    url_Parse L (address s @ ''/_xtdb/submit-tx'') = None \<longrightarrow>
    reply w (submit_request s ''application/json'' payload'') = DoResp resp'' \<longrightarrow>
    StatusCode resp'' = 202 \<longrightarrow>
      fst (PersistEntities L s payloads w) = (TxID (fst (json_Decode_TxResponse L (Body resp''))), None)
      \<and> failures_logged L s Warn (json_Decode_TxResponse L (Body resp''))
           (on_wire w (submit_request s ''application/json'' payload'')) (snd (PersistEntities L s payloads w)))"
  using SubmitPutTx_accepted [of L trxs payload s w resp]
    SubmitEvictTx_accepted [of xtIDs L payload' s w resp']
    PersistEntities_accepted [of L payloads payload'' s w resp'']
  by blast

theorem accepted_submit_reports_success_witness:
  "fst (SubmitPutTx example_lib example_store [''{:xt/id 1}'']
          (replying (status_reply 202 ''{:xtdb.api/tx-id 7'') (status_reply 500 ''timeout''))) =
     (Some \<lparr>TxID = 7, TxTime = ''0001-01-01T00:00:00Z''\<rparr>, None)
   \<and> fst (SubmitEvictTx example_lib example_store [''e1'']
          (replying (status_reply 202 ''{:xtdb.api/tx-id 7'') (status_reply 500 ''timeout''))) =
     (Some \<lparr>TxID = 7, TxTime = ''0001-01-01T00:00:00Z''\<rparr>, None)
   \<and> fst (PersistEntities example_lib example_store [''{}'']
          (replying (status_reply 202 ''{:xtdb.api/tx-id 7'') (status_reply 500 ''timeout''))) =
     (7, None)
   \<and> {(Warn, ''error decoding transaction response, err=unexpected EOF''),
       (Warn, ''failed awaiting transaction 7, code=500, response=timeout'')}
      \<subseteq> set (logs (snd (SubmitPutTx example_lib example_store [''{:xt/id 1}'']
          (replying (status_reply 202 ''{:xtdb.api/tx-id 7'') (status_reply 500 ''timeout'')))))
   \<and> {(Info, ''error decoding transaction response, err=unexpected EOF''),
       (Warn, ''failed awaiting transaction 7, code=500, response=timeout'')}
      \<subseteq> set (logs (snd (SubmitEvictTx example_lib example_store [''e1'']
          (replying (status_reply 202 ''{:xtdb.api/tx-id 7'') (status_reply 500 ''timeout'')))))
   \<and> {(Warn, ''error decoding transaction response, err=unexpected EOF''),
       (Warn, ''failed awaiting transaction 7, code=500, response=timeout'')}
      \<subseteq> set (logs (snd (PersistEntities example_lib example_store [''{}'']
          (replying (status_reply 202 ''{:xtdb.api/tx-id 7'') (status_reply 500 ''timeout'')))))"
proof -
  let ?w = "replying (status_reply 202 ''{:xtdb.api/tx-id 7'') (status_reply 500 ''timeout'')"
  let ?resp = "\<lparr>StatusCode = 202, Body = \<lparr>data = ''{:xtdb.api/tx-id 7'', read_err = None\<rparr>\<rparr>"
  have r: "\<And>req. reply ?w req = DoResp ?resp" by (simp add: status_reply_def)
  have ne: "[''e1''] \<noteq> []" by simp
  have st: "StatusCode ?resp = 202" by simp
  note inst = accepted_submit_reports_success [where L = example_lib and s = example_store and w = ?w
      and trxs = "[''{:xt/id 1}'']" and payload = "''{:tx-ops [[:xtdb.api/put {:xt/id 1}]]}''"
      and xtIDs = "[''e1'']" and payload' = "fst (buildTrxEvictEdn example_lib [''e1''])"
      and payloads = "[''{}'']" and payload'' = "''{tx-ops: [{}]}''"
      and resp = ?resp and resp' = ?resp and resp'' = ?resp]
  note a = inst [THEN conjunct1, THEN mp, OF example_put_payload, THEN mp, OF example_url_ok(1),
      THEN mp, OF r, THEN mp, OF st]
  note b = inst [THEN conjunct2, THEN conjunct1, THEN mp, OF ne, THEN mp, OF buildTrxEvictEdn_pair,
      THEN mp, OF example_url_ok(1), THEN mp, OF r, THEN mp, OF st]
  note c = inst [THEN conjunct2, THEN conjunct2, THEN mp, OF example_persist_payload,
      THEN mp, OF example_url_ok(1), THEN mp, OF r, THEN mp, OF st]
  from a b c show ?thesis
    by (simp add: failures_logged_def example_receipt example_await_fails)
qed

text \<open>
  C5. SubmitEvictTx with no identity returns its error and issues no request. With at least
  one identity it goes on to the submission: provided the submission URL parses, its POST
  with the evict envelope is the next request on the wire.
\<close>

theorem SubmitEvictTx_empty_list_guard:
  "(xtIDs = [] \<longrightarrow>
      fst (SubmitEvictTx L s xtIDs w) = (None, Some (GoError ''need at least one xt/id to evict''))
      \<and> issued w (snd (SubmitEvictTx L s xtIDs w)) = [])
   \<and> (xtIDs \<noteq> [] \<longrightarrow> url_Parse L (address s @ ''/_xtdb/submit-tx'') = None \<longrightarrow>
      (\<exists>rest. issued w (snd (SubmitEvictTx L s xtIDs w)) =
         submit_request s ''application/edn'' (fst (buildTrxEvictEdn L xtIDs)) # rest))"
proof -
  have aw: "\<And>t w0 e w'. AwaitTx L s t w0 = (e, w') \<Longrightarrow> \<exists>rest. sent w' = sent w0 @ rest"
    using sent_AwaitTx [of L s] by (metis snd_conv)
  show ?thesis
    by (auto simp: SubmitEvictTx_def buildTrxEvictEdn_def NewRequest_def Header_Set_def
        client_Do_def issued_def Let_def io_ReadAll_def submit_request_def
        split: prod.splits do_result.splits option.splits dest!: aw)
qed

theorem SubmitEvictTx_empty_list_guard_witness:
  "fst (SubmitEvictTx example_lib example_store [] refusing_world) =
     (None, Some (GoError ''need at least one xt/id to evict''))
   \<and> issued refusing_world (snd (SubmitEvictTx example_lib example_store [] refusing_world)) = []
   \<and> (\<exists>rest. issued refusing_world (snd (SubmitEvictTx example_lib example_store [''e1''] refusing_world)) =
         submit_request example_store ''application/edn'' (fst (buildTrxEvictEdn example_lib [''e1''])) # rest)"
  using SubmitEvictTx_empty_list_guard [of "[]" example_lib example_store refusing_world]
    SubmitEvictTx_empty_list_guard [of "[''e1'']" example_lib example_store refusing_world]
  by simp

text \<open>
  C6. GetEntityHistory with a sort order other than asc and desc returns its error and
  issues no request. With asc or desc, provided the entity URL parses, it issues the
  history request, and only that.
\<close>

theorem GetEntityHistory_sort_order_guard:
  "(sortOrder \<noteq> ''asc'' \<and> sortOrder \<noteq> ''desc'' \<longrightarrow>
      fst (GetEntityHistory L s eid sortOrder withDocs w) =
        (None, Some (GoError (''wrong sort order input, accept '' @ quoted ''asc''
           @ '' or '' @ quoted ''desc'')))
      \<and> issued w (snd (GetEntityHistory L s eid sortOrder withDocs w)) = [])
   \<and> (sortOrder = ''asc'' \<or> sortOrder = ''desc'' \<longrightarrow>
       url_Parse L (address s @ ''/_xtdb/entity'') = None \<longrightarrow>
       issued w (snd (GetEntityHistory L s eid sortOrder withDocs w)) =
         [history_request s eid sortOrder withDocs])"
  by (auto simp: GetEntityHistory_def NewRequest_def Header_Set_def Query_Add_def
        client_Do_def issued_def Let_def io_ReadAll_def history_request_def
        split: prod.splits do_result.splits option.splits)

theorem GetEntityHistory_sort_order_guard_witness:
  "fst (GetEntityHistory example_lib example_store ''e1'' ''newest'' True refusing_world) =
     (None, Some (GoError (''wrong sort order input, accept '' @ quoted ''asc'' @ '' or '' @ quoted ''desc'')))
   \<and> issued refusing_world
       (snd (GetEntityHistory example_lib example_store ''e1'' ''newest'' True refusing_world)) = []
   \<and> issued refusing_world
       (snd (GetEntityHistory example_lib example_store ''e1'' ''asc'' True refusing_world)) =
         [history_request example_store ''e1'' ''asc'' True]"
  using GetEntityHistory_sort_order_guard [of "''newest''" example_lib example_store "''e1''" True refusing_world]
    GetEntityHistory_sort_order_guard [of "''asc''" example_lib example_store "''e1''" True refusing_world]
  by simp

text \<open>
  C7. When the store answers the request of GetEntity or GetEntityHistory with 404, the
  result is nil bytes and a nil error; when it answers with a status other than 200 and
  404, the result is an error whose text contains the status code.
\<close>

theorem entity_fetch_status_mapping:
  "(url_Parse L (address s @ ''/_xtdb/entity'') = None \<longrightarrow>
    reply w (entity_request s xtId) = DoResp resp \<longrightarrow>
      (StatusCode resp = 404 \<longrightarrow> fst (GetEntity L s xtId w) = (None, None))
      \<and> (StatusCode resp \<noteq> 200 \<and> StatusCode resp \<noteq> 404 \<longrightarrow>
           (\<exists>pre post. fst (GetEntity L s xtId w) =
               (None, Some (GoError (pre @ show_int (StatusCode resp) @ post))))))
   \<and> (url_Parse L (address s @ ''/_xtdb/entity'') = None \<longrightarrow>
      sortOrder = ''asc'' \<or> sortOrder = ''desc'' \<longrightarrow>
      reply w (history_request s eid sortOrder withDocs) = DoResp resp' \<longrightarrow>
      (StatusCode resp' = 404 \<longrightarrow> fst (GetEntityHistory L s eid sortOrder withDocs w) = (None, None))
      \<and> (StatusCode resp' \<noteq> 200 \<and> StatusCode resp' \<noteq> 404 \<longrightarrow>
           (\<exists>pre post. fst (GetEntityHistory L s eid sortOrder withDocs w) =
               (None, Some (GoError (pre @ show_int (StatusCode resp') @ post))))))"
proof -
  have a: "\<And>x. \<exists>pre post. ''unknown http response returned fetching entity, status='' @ x = pre @ x @ post"
    by (metis append_Nil2)
  have b: "\<And>x y. \<exists>pre post. ''unknown status code ('' @ x @ ''), response='' @ y = pre @ x @ post"
    by blast
  show ?thesis
    using a b
    by (simp add: GetEntity_def GetEntityHistory_def NewRequest_def Header_Set_def Query_Add_def
        client_Do_def Let_def io_ReadAll_def history_request_def entity_request_def reply_def
        split: prod.splits do_result.splits option.splits)
qed

theorem entity_fetch_status_mapping_witness:
  "fst (GetEntity example_lib example_store ''e1'' (replying (status_reply 404 '''') (status_reply 404 '''')))
     = (None, None)
   \<and> (\<exists>pre post. fst (GetEntity example_lib example_store ''e1''
                          (replying (status_reply 503 ''busy'') (status_reply 503 ''busy'')))
         = (None, Some (GoError (pre @ show_int 503 @ post))))
   \<and> fst (GetEntityHistory example_lib example_store ''e1'' ''desc'' False
            (replying (status_reply 404 '''') (status_reply 404 '''')))
     = (None, None)
   \<and> (\<exists>pre post. fst (GetEntityHistory example_lib example_store ''e1'' ''desc'' False
                          (replying (status_reply 503 ''busy'') (status_reply 503 ''busy'')))
         = (None, Some (GoError (pre @ show_int 503 @ post))))"
  using entity_fetch_status_mapping [where L = example_lib and s = example_store and xtId = "''e1''"
      and eid = "''e1''" and sortOrder = "''desc''" and withDocs = False
      and w = "replying (status_reply 404 '''') (status_reply 404 '''')"
      and resp = "\<lparr>StatusCode = 404, Body = \<lparr>data = '''', read_err = None\<rparr>\<rparr>"
      and resp' = "\<lparr>StatusCode = 404, Body = \<lparr>data = '''', read_err = None\<rparr>\<rparr>"]
    entity_fetch_status_mapping [where L = example_lib and s = example_store and xtId = "''e1''"
      and eid = "''e1''" and sortOrder = "''desc''" and withDocs = False
      and w = "replying (status_reply 503 ''busy'') (status_reply 503 ''busy'')"
      and resp = "\<lparr>StatusCode = 503, Body = \<lparr>data = ''busy'', read_err = None\<rparr>\<rparr>"
      and resp' = "\<lparr>StatusCode = 503, Body = \<lparr>data = ''busy'', read_err = None\<rparr>\<rparr>"]
  by (simp add: status_reply_def)

text \<open>
  C8. When some record of the batch cannot be marshalled, buildTrxPutEdn returns the empty
  string with the marshalling error of one of the records, and SubmitPutTx returns that
  error and leaves the world as it was: nothing went on the wire.
\<close>

theorem unserializable_record_fails_before_request:
  assumes "\<exists>tx\<in>set trxs. isl (edn_Marshal L tx)"
  shows "\<exists>tx\<in>set trxs. \<exists>err. edn_Marshal L tx = Inl err
           \<and> buildTrxPutEdn L trxs = ('''', Some err)
           \<and> SubmitPutTx L s trxs w = ((None, Some err), w)"
proof -
  from put_ops_error [OF assms, of "[]"]
  obtain tx err where "tx \<in> set trxs" "edn_Marshal L tx = Inl err" "put_ops L trxs [] = Inl err"
    by blast
  then show ?thesis
    by (auto simp: buildTrxPutEdn_def SubmitPutTx_def)
qed

theorem unserializable_record_fails_before_request_witness:
  "buildTrxPutEdn example_lib [''{:xt/id 1}'', '''', ''{:xt/id 2}''] =
     ('''', Some (GoError ''unsupported type''))
   \<and> SubmitPutTx example_lib example_store [''{:xt/id 1}'', '''', ''{:xt/id 2}''] refusing_world =
       ((None, Some (GoError ''unsupported type'')), refusing_world)"
proof -
  let ?trxs = "[''{:xt/id 1}'', '''', ''{:xt/id 2}'']"
  have h: "\<exists>tx\<in>set ?trxs. isl (edn_Marshal example_lib tx)"
    by (simp add: example_lib_def)
  from unserializable_record_fails_before_request [OF h, of example_store refusing_world]
  obtain tx err where "edn_Marshal example_lib tx = Inl err"
    and r: "buildTrxPutEdn example_lib ?trxs = ('''', Some err)"
      "SubmitPutTx example_lib example_store ?trxs refusing_world = ((None, Some err), refusing_world)"
    by blast
  then have "err = GoError ''unsupported type''"
    by (simp add: example_lib_def split: if_splits)
  with r show ?thesis by simp
qed

text \<open>
  C9. The goroutine of Sync is to end once Sync has returned. Against a store that refuses
  every connection it never does: after the deadline each pass takes the \<open>ctx.Done()\<close>
  case, appends to the log and loops.
\<close>

theorem Sync_goroutine_spins:
  "\<not> exited (Sync n example_lib (\<lambda>_. 3000000000) example_store 1000000000 refusing_world)"
  by (rule Sync_never_exits [OF never_ok_refusing])

text \<open>
  C10. Query and QueryAsJson index column 0 of every decoded row: once the response has
  been read and decoded, the call panics exactly when some row has no column.
\<close>

theorem Query_panics_iff_empty_row:
  "(queryRequest L s q ''application/edn'' w = ((Some b, None), w1) \<longrightarrow>
    edn_Unmarshal_rows L b = Inr p \<longrightarrow>
      ((\<exists>m. fst (Query L s q w) = Panics m) \<longleftrightarrow> [] \<in> set p))
   \<and> (queryRequest L s q ''application/json'' w = ((Some b', None), w1') \<longrightarrow>
    json_Unmarshal_rows L b' = Inr p' \<longrightarrow>
      ((\<exists>m. fst (QueryAsJson L s q w) = Panics m) \<longleftrightarrow> [] \<in> set p'))"
proof (intro conjI impI)
  assume q: "queryRequest L s q ''application/edn'' w = ((Some b, None), w1)"
    and u: "edn_Unmarshal_rows L b = Inr p"
  show "(\<exists>m. fst (Query L s q w) = Panics m) \<longleftrightarrow> [] \<in> set p"
    using q u first_columns_panics [of p "[]"]
    by (auto simp: Query_def split: sum.splits outcome.splits)
next
  assume q: "queryRequest L s q ''application/json'' w = ((Some b', None), w1')"
    and u: "json_Unmarshal_rows L b' = Inr p'"
  show "(\<exists>m. fst (QueryAsJson L s q w) = Panics m) \<longleftrightarrow> [] \<in> set p'"
    using q u first_columns_panics [of p' "[]"]
    by (auto simp: QueryAsJson_def split: sum.splits outcome.splits)
qed

theorem Query_panics_iff_empty_row_witness:
  "(\<exists>m. fst (Query example_lib example_store ''{:query q}''
          (replying (status_reply 200 ''[[a] []]'') (status_reply 200 ''''))) = Panics m)
   \<and> (\<exists>m. fst (QueryAsJson example_lib example_store ''{:query q}''
          (replying (status_reply 200 ''[[a] []]'') (status_reply 200 ''''))) = Panics m)"
proof -
  let ?w = "replying (status_reply 200 ''[[a] []]'') (status_reply 200 '''')"
  let ?p = "[[''a''], []]"
  have q1: "queryRequest example_lib example_store ''{:query q}'' ''application/edn'' ?w =
      ((Some ''[[a] []]'', None), on_wire ?w (query_request example_store ''{:query q}'' ''application/edn''))"
    using queryRequest_ok [of example_lib example_store ?w "''{:query q}''" "''application/edn''"]
    by (simp add: status_reply_def)
  have q2: "queryRequest example_lib example_store ''{:query q}'' ''application/json'' ?w =
      ((Some ''[[a] []]'', None), on_wire ?w (query_request example_store ''{:query q}'' ''application/json''))"
    using queryRequest_ok [of example_lib example_store ?w "''{:query q}''" "''application/json''"]
    by (simp add: status_reply_def)
  have u1: "edn_Unmarshal_rows example_lib ''[[a] []]'' = Inr ?p"
    and u2: "json_Unmarshal_rows example_lib ''[[a] []]'' = Inr ?p"
    by (simp_all add: example_lib_def decode_rows_def)
  have e: "[] \<in> set ?p" by simp
  note inst = Query_panics_iff_empty_row [where L = example_lib and s = example_store
      and q = "''{:query q}''" and w = ?w and b = "''[[a] []]''" and b' = "''[[a] []]''"
      and p = ?p and p' = ?p
      and ?w1.0 = "on_wire ?w (query_request example_store ''{:query q}'' ''application/edn'')"
      and w1' = "on_wire ?w (query_request example_store ''{:query q}'' ''application/json'')"]
  from inst [THEN conjunct1, THEN mp, OF q1, THEN mp, OF u1] e
    inst [THEN conjunct2, THEN mp, OF q2, THEN mp, OF u2]
  show ?thesis by blast
qed

end
